theory Spec2Isabelle
  imports Complex_Main
begin

section \<open>Data model\<close>

text \<open>
  A Python float is an IEEE 754 double. It is represented here by the real number it
  denotes. Comparisons (\<open><\<close>, \<open>\<le>\<close>, \<open>>\<close>), \<open>max\<close> and \<open>min\<close> of doubles are exact, so
  they are the operations on the reals. Addition, subtraction, division and \<open>round\<close>
  return the double nearest to the exact result (for \<open>round\<close>, nearest to the decimal), so
  they are not the operations on the reals: the model takes them as a parameter and says
  nothing about them except where a theorem names a property it needs. Infinities and NaN
  do not occur among times in seconds and are not represented.
\<close>

record float_ops =
  fl_add :: "real \<Rightarrow> real \<Rightarrow> real"
  fl_sub :: "real \<Rightarrow> real \<Rightarrow> real"
  fl_div :: "real \<Rightarrow> real \<Rightarrow> real"
  fl_round :: "real \<Rightarrow> nat \<Rightarrow> real"

text \<open>
  The built-in \<open>round(x, ndigits)\<close> decides on the exact value of the double \<open>x\<close>: the
  nearest multiple of \<open>10 ^ -ndigits\<close>, a tie going to the even one. \<open>py_round\<close> is that
  decimal; Python returns the double nearest to it.
\<close>

definition py_round :: "real \<Rightarrow> nat \<Rightarrow> real" where
  "py_round x ndigits =
     (let y = x * 10 ^ ndigits; f = \<lfloor>y\<rfloor>; d = y - of_int f
      in of_int (if d < 1 / 2 then f else if 1 / 2 < d then f + 1
                 else if even f then f else f + 1) / 10 ^ ndigits)"

text \<open>
  The operations without rounding. Double arithmetic agrees with them on every call whose
  exact result is a double, as it is for sums and differences of small multiples of
  \<open>1/4096\<close>. The concrete runs below make such calls only, but for one rounding to the
  decimal \<open>1.001\<close>, which stands there for the double nearest to it.
\<close>

definition exact_arith :: float_ops where
  "exact_arith = \<lparr>fl_add = (+), fl_sub = (-), fl_div = (/), fl_round = py_round\<rparr>"

text \<open>
  A \<open>pyannote.core.Segment\<close> is an immutable pair of a start and an end time; nothing in
  its constructor asks for \<open>start \<le> end\<close>. The start of a processed segment is the result of
  \<open>max(0, x)\<close>, which is \<open>x\<close> when \<open>x > 0\<close> and the integer \<open>0\<close> otherwise: among processed
  segments a start of value 0 is the Python integer 0, every other bound is a float.
\<close>

datatype Segment = Segment (seg_start: real) (seg_end: real)

text \<open>Python values as they occur in the configuration and in the result records.\<close>

datatype pyval =
    PyNone
  | PyBool bool
  | PyInt int
  | PyNum real
  | PyStr string
  | PyList "pyval list"
  | PyDict "(string \<times> pyval) list"

type_synonym pydict = "(string \<times> pyval) list"

text \<open>A raised exception: \<open>type(e).__name__\<close> and \<open>str(e)\<close>.\<close>

datatype py_exn = PyExn (exn_type: string) (exn_msg: string)

text \<open>
  The configuration is the dictionary read from the YAML file (or the default dictionary of
  \<open>_load_config\<close>): \<open>self.config[k]\<close> raises \<open>KeyError\<close> on an absent key, and
  arithmetic or comparison of a float with a non-numeric entry raises \<open>TypeError\<close>.
  The literals \<open>0.3\<close>, \<open>0.2\<close> and \<open>0.1\<close> of the default dictionary denote the doubles
  nearest to them; \<open>0.25\<close> is a double.
\<close>

type_synonym config = pydict

definition double_0_3 :: real where
  "double_0_3 = 5404319552844595 / 18014398509481984"

definition double_0_2 :: real where
  "double_0_2 = 3602879701896397 / 18014398509481984"

definition double_0_1 :: real where
  "double_0_1 = 3602879701896397 / 36028797018963968"

definition default_config :: config where
  "default_config =
     [(''model'', PyStr ''pyannote/voice-activity-detection''),
      (''confidence_threshold'', PyNum double_0_3),
      (''min_duration_s'', PyNum double_0_3),
      (''merge_gap_s'', PyNum double_0_2),
      (''margin_s'', PyNum (1 / 4)),
      (''onset'', PyNum double_0_3),
      (''offset'', PyNum (1 / 4)),
      (''min_duration_on'', PyNum double_0_2),
      (''min_duration_off'', PyNum double_0_1)]"

definition cfg_num :: "config \<Rightarrow> string \<Rightarrow> py_exn + real" where
  "cfg_num cfg k =
     (case map_of cfg k of
        None \<Rightarrow> Inl (PyExn ''KeyError'' k)
      | Some (PyNum r) \<Rightarrow> Inr r
      | Some (PyInt i) \<Rightarrow> Inr (of_int i)
      | Some (PyBool b) \<Rightarrow> Inr (of_bool b)
      | Some _ \<Rightarrow> Inl (PyExn ''TypeError'' k))"

section \<open>Segment post-processor (\<open>VADProcessor._post_process_segments\<close>)\<close>

text \<open>
  The margin step of the first loop: \<open>max(0, start - margin)\<close> and
  \<open>min(audio_duration, end + margin)\<close>, the difference and the sum in double arithmetic.
\<close>

definition expand_segment :: "float_ops \<Rightarrow> real \<Rightarrow> real \<Rightarrow> Segment \<Rightarrow> Segment" where
  "expand_segment fl margin audio_duration segment =
     Segment (max 0 (fl_sub fl (seg_start segment) margin))
             (min audio_duration (fl_add fl (seg_end segment) margin))"

text \<open>
  The first \<open>for\<close> loop: the duration test on \<open>duration = end - start\<close> with \<open>continue\<close>,
  then the margins, then the append. The two configuration lookups happen inside the loop
  body, in this order, so a missing key only raises when a segment reaches it.
\<close>

fun filter_expand :: "float_ops \<Rightarrow> config \<Rightarrow> real \<Rightarrow> Segment list \<Rightarrow> py_exn + Segment list" where
  "filter_expand fl cfg audio_duration [] = Inr []"
| "filter_expand fl cfg audio_duration (segment # segments) =
     (case cfg_num cfg ''min_duration_s'' of
        Inl e \<Rightarrow> Inl e
      | Inr min_duration \<Rightarrow>
          if fl_sub fl (seg_end segment) (seg_start segment) < min_duration
          then filter_expand fl cfg audio_duration segments
          else (case cfg_num cfg ''margin_s'' of
                  Inl e \<Rightarrow> Inl e
                | Inr margin \<Rightarrow>
                    (case filter_expand fl cfg audio_duration segments of
                       Inl e \<Rightarrow> Inl e
                     | Inr processed \<Rightarrow>
                         Inr (expand_segment fl margin audio_duration segment # processed))))"

text \<open>
  The second loop, over \<open>processed_segments[1:]\<close>, with its two variables \<open>merged\<close> and
  \<open>current\<close>; the empty list is the exit of the loop, where \<open>current\<close> is appended. The
  test is on the difference \<open>next_seg.start - current.end\<close> as double arithmetic gives it.
\<close>

fun merge_loop ::
  "float_ops \<Rightarrow> real \<Rightarrow> Segment list \<Rightarrow> Segment \<Rightarrow> Segment list \<Rightarrow> Segment list" where
  "merge_loop fl gap merged current [] = merged @ [current]"
| "merge_loop fl gap merged current (next_seg # rest) =
     (if fl_sub fl (seg_start next_seg) (seg_end current) \<le> gap
      then merge_loop fl gap merged (Segment (seg_start current) (seg_end next_seg)) rest
      else merge_loop fl gap (merged @ [current]) next_seg rest)"

text \<open>The body of the \<open>try\<close> block; \<open>Inl\<close> is an exception on its way to the handler.\<close>

definition post_process_body ::
  "float_ops \<Rightarrow> config \<Rightarrow> real \<Rightarrow> Segment list \<Rightarrow> py_exn + Segment list" where
  "post_process_body fl cfg audio_duration segments =
     (case filter_expand fl cfg audio_duration segments of
        Inl e \<Rightarrow> Inl e
      | Inr [] \<Rightarrow> Inr []
      | Inr (current # rest) \<Rightarrow>
          (case cfg_num cfg ''merge_gap_s'' of
             Inl e \<Rightarrow> Inl e
           | Inr gap \<Rightarrow>
               if gap > 0 then Inr (merge_loop fl gap [] current rest)
               else Inr (current # rest)))"

text \<open>The handler logs the exception and returns the empty list.\<close>

definition post_process_segments ::
  "float_ops \<Rightarrow> config \<Rightarrow> real \<Rightarrow> Segment list \<Rightarrow> Segment list" where
  "post_process_segments fl cfg audio_duration segments =
     (case post_process_body fl cfg audio_duration segments of
        Inl e \<Rightarrow> []
      | Inr processed \<Rightarrow> processed)"

text \<open>Order and overlap of a list of segments.\<close>

definition sorted_by_start :: "Segment list \<Rightarrow> bool" where
  "sorted_by_start segs = sorted (map seg_start segs)"

definition overlaps :: "Segment \<Rightarrow> Segment \<Rightarrow> bool" where
  "overlaps a b = (max (seg_start a) (seg_start b) < min (seg_end a) (seg_end b))"

definition pairwise_non_overlapping :: "Segment list \<Rightarrow> bool" where
  "pairwise_non_overlapping segs = sorted_wrt (\<lambda>a b. \<not> overlaps a b) segs"

definition within_bounds :: "real \<Rightarrow> Segment \<Rightarrow> bool" where
  "within_bounds audio_duration seg = (0 \<le> seg_start seg \<and> seg_end seg \<le> audio_duration)"

text \<open>The test that lets a segment through the duration filter.\<close>

definition keeps :: "float_ops \<Rightarrow> real \<Rightarrow> Segment \<Rightarrow> bool" where
  "keeps fl min_duration seg = (\<not> fl_sub fl (seg_end seg) (seg_start seg) < min_duration)"

text \<open>Three configurations whose entries are doubles, used as concrete inputs below.\<close>

definition zero_margin_config :: config where
  "zero_margin_config =
     [(''min_duration_s'', PyNum (1/4)), (''margin_s'', PyNum 0), (''merge_gap_s'', PyNum (1/4))]"

definition zero_gap_config :: config where
  "zero_gap_config =
     [(''min_duration_s'', PyNum (1/4)), (''margin_s'', PyNum (1/4)), (''merge_gap_s'', PyNum 0)]"

definition quarter_config :: config where
  "quarter_config =
     [(''min_duration_s'', PyNum (1/4)), (''margin_s'', PyNum (1/4)), (''merge_gap_s'', PyNum (1/4))]"

section \<open>Python helpers\<close>

text \<open>Truth value of a Python object, as \<open>if x\<close>, \<open>not x\<close> and \<open>x or y\<close> take it.\<close>

fun py_truthy :: "pyval \<Rightarrow> bool" where
  "py_truthy PyNone = False"
| "py_truthy (PyBool b) = b"
| "py_truthy (PyInt i) = (i \<noteq> 0)"
| "py_truthy (PyNum r) = (r \<noteq> 0)"
| "py_truthy (PyStr s) = (s \<noteq> [])"
| "py_truthy (PyList xs) = (xs \<noteq> [])"
| "py_truthy (PyDict d) = (d \<noteq> [])"

text \<open>\<open>d[k]\<close>, raising \<open>KeyError\<close> on an absent key.\<close>

definition py_index :: "pydict \<Rightarrow> string \<Rightarrow> py_exn + pyval" where
  "py_index d k = (case map_of d k of None \<Rightarrow> Inl (PyExn ''KeyError'' k) | Some v \<Rightarrow> Inr v)"

text \<open>\<open>sub in s\<close> on strings.\<close>

fun str_contains :: "string \<Rightarrow> string \<Rightarrow> bool" where
  "str_contains sub [] = (sub = [])"
| "str_contains sub (c # cs) = (take (length sub) (c # cs) = sub \<or> str_contains sub cs)"

text \<open>\<open>str.lower\<close> on ASCII letters.\<close>

definition char_lower :: "char \<Rightarrow> char" where
  "char_lower c =
     (case map_of (zip ''ABCDEFGHIJKLMNOPQRSTUVWXYZ'' ''abcdefghijklmnopqrstuvwxyz'') c of
        Some l \<Rightarrow> l
      | None \<Rightarrow> c)"

definition str_lower :: "string \<Rightarrow> string" where
  "str_lower s = map char_lower s"

text \<open>
  \<open>pathlib.Path(p).name\<close>, \<open>.suffix\<close> and \<open>.stem\<close> for a POSIX path: the path is split
  at its slashes, empty components and \<open>.\<close> components are dropped, the name is the last
  component left (the empty string if there is none), and the name is split at its last dot
  when that dot is neither its first nor its last character.
\<close>

fun split_slash :: "string \<Rightarrow> string list" where
  "split_slash [] = [[]]"
| "split_slash (c # cs) =
     (if c = CHR ''/'' then [] # split_slash cs
      else (case split_slash cs of
              [] \<Rightarrow> [[c]]
            | w # ws \<Rightarrow> (c # w) # ws))"

definition path_name :: "string \<Rightarrow> string" where
  "path_name p =
     (case rev (filter (\<lambda>part. part \<noteq> [] \<and> part \<noteq> ''.'') (split_slash p)) of
        [] \<Rightarrow> []
      | name # parents \<Rightarrow> name)"

definition path_suffix :: "string \<Rightarrow> string" where
  "path_suffix p =
     (let name = path_name p; ext = rev (takeWhile (\<lambda>c. c \<noteq> CHR ''.'') (rev name))
      in if ext \<noteq> [] \<and> length ext + 1 < length name then CHR ''.'' # ext else [])"

definition path_stem :: "string \<Rightarrow> string" where
  "path_stem p =
     (let name = path_name p; ext = rev (takeWhile (\<lambda>c. c \<noteq> CHR ''.'') (rev name))
      in if ext \<noteq> [] \<and> length ext + 1 < length name
         then take (length name - length ext - 1) name else name)"

section \<open>Orchestrator (\<open>VADProcessor\<close>) and its collaborators\<close>

text \<open>
  What the external inference engine returns: an object with \<open>get_timeline\<close>, a dictionary
  with a \<open>speech\<close> entry that has one, or anything else.
\<close>

datatype vad_output = Annotation "Segment list" | SpeechDict "Segment list" | OtherOutput

type_synonym pipeline_handle = nat

text \<open>
  The collaborators outside the repository, as functions of their arguments:
  \<open>hf_hub_download\<close>, \<open>Pipeline.from_pretrained\<close> (which may return \<open>None\<close>),
  \<open>Pipeline.to\<close>, the \<open>ffmpeg\<close> subprocess (\<open>None\<close> is return code 0, otherwise its
  stderr), reading the file for its hash, \<open>soundfile.read\<close> (number of frames and sample
  rate), the loaded pipeline applied to a path, and the clock and library versions.
\<close>

record env =
  hf_hub_download :: "string \<Rightarrow> string \<Rightarrow> py_exn + string"
  from_pretrained :: "string \<Rightarrow> string \<Rightarrow> py_exn + pipeline_handle option"
  to_device :: "pipeline_handle \<Rightarrow> string \<Rightarrow> py_exn + pipeline_handle"
  ffmpeg :: "string \<Rightarrow> string \<Rightarrow> string option"
  get_file_hash :: "string \<Rightarrow> py_exn + string"
  sf_read :: "string \<Rightarrow> py_exn + nat \<times> nat"
  run_pipeline :: "pipeline_handle \<Rightarrow> string \<Rightarrow> py_exn + vad_output"
  time_start :: real
  time_end :: real
  torch_version :: string
  torchaudio_version :: string
  ffmpeg_available :: bool

text \<open>The calls made to the collaborators, recorded in order (a ghost field of the state).\<close>

datatype event =
    CheckModelAccess string string
  | FromPretrained string string
  | ToDevice pipeline_handle
  | Ffmpeg string string
  | GetFileHash string
  | SfRead string
  | RunPipeline pipeline_handle string
  | RemoveFile string
  | SaveResults string pydict

text \<open>
  The fields of a \<open>VADProcessor\<close> that the operations read or write, the scratch files
  present on disk, and the recorded calls.
\<close>

record vad_state =
  config :: config
  model_id :: string
  token :: "string option"
  pipeline :: "pipeline_handle option"
  device_str :: string
  initialization_error :: "string option"
  files :: "string set"
  calls :: "event list"

text \<open>
  The text of a value inside an f-string. Only strings are formatted by this program; the
  rendering of other values is not modelled.
\<close>

fun py_str :: "pyval \<Rightarrow> string" where
  "py_str (PyStr s) = s"
| "py_str PyNone = ''None''"
| "py_str (PyBool b) = (if b then ''True'' else ''False'')"
| "py_str v = ''?''"

text \<open>
  \<open>TokenManager.check_model_access\<close>: every exception of the download is caught and
  classified by its message. Accented letters of the messages are written without accent.
\<close>

definition check_model_access :: "env \<Rightarrow> string \<Rightarrow> string \<Rightarrow> pydict" where
  "check_model_access env model tok =
     (case hf_hub_download env model tok of
        Inr config_path \<Rightarrow>
          [(''success'', PyBool True),
           (''message'', PyStr ''Acces au modele confirme''),
           (''config_path'', PyStr config_path)]
      | Inl e \<Rightarrow>
          (let error_msg = exn_msg e in
           if str_contains ''401'' error_msg \<or> str_contains ''Unauthorized'' error_msg then
             [(''success'', PyBool False),
              (''message'', PyStr ''Token invalide ou expire''),
              (''details'', PyStr ''Verifiez que votre token HF est valide et non expire'')]
           else if str_contains ''403'' error_msg \<or> str_contains ''Forbidden'' error_msg then
             [(''success'', PyBool False),
              (''message'', PyStr ''Conditions d'utilisation non acceptees''),
              (''details'', PyStr (''Vous devez accepter les conditions d'utilisation pour ''
                  @ model @ '' sur HuggingFace''))]
           else if str_contains ''404'' error_msg \<or> str_contains ''Not Found'' error_msg then
             [(''success'', PyBool False),
              (''message'', PyStr ''Modele non trouve''),
              (''details'', PyStr (''Le modele '' @ model @ '' n'existe pas ou n'est pas accessible''))]
           else
             [(''success'', PyBool False),
              (''message'', PyStr (''Erreur d'acces: '' @ error_msg)),
              (''details'', PyStr ''Verifiez votre connexion reseau et les permissions'')]))"

text \<open>The messages of the two exceptions that using \<open>None\<close> as a pipeline raises.\<close>

definition none_has_no_to :: string where
  "none_has_no_to =
     CHR 0x27 # ''NoneType'' @ CHR 0x27 # '' object has no attribute '' @ CHR 0x27 # ''to'' @ [CHR 0x27]"

definition none_not_callable :: string where
  "none_not_callable = CHR 0x27 # ''NoneType'' @ CHR 0x27 # '' object is not callable''"

text \<open>The \<open>except\<close> handler of \<open>initialize_pipeline\<close>.\<close>

definition init_exception :: "py_exn \<Rightarrow> vad_state \<Rightarrow> pydict \<times> vad_state" where
  "init_exception e s =
     ([(''success'', PyBool False),
       (''message'', PyStr ''Echec de l'initialisation de la pipeline''),
       (''details'', PyStr (exn_msg e)),
       (''error_type'', PyStr (exn_type e))],
      s\<lparr>initialization_error := Some (''Erreur initialisation pipeline: '' @ exn_msg e)\<rparr>)"

definition missing_token_result :: pydict where
  "missing_token_result =
     [(''success'', PyBool False),
      (''message'', PyStr ''Token HuggingFace manquant''),
      (''details'', PyStr
         ''Aucun token trouve dans .streamlit/secrets.toml ou variables d'environnement'')]"

text \<open>
  \<open>hf_token or self.token\<close>: the argument when it is a non-empty string, otherwise the
  stored token; \<open>not token\<close> holds for \<open>None\<close> and for the empty string.
\<close>

definition effective_token :: "string option \<Rightarrow> vad_state \<Rightarrow> string option" where
  "effective_token hf_token s =
     (case hf_token of
        Some t \<Rightarrow> if t \<noteq> [] then Some t else token s
      | None \<Rightarrow> token s)"

text \<open>
  \<open>VADProcessor.initialize_pipeline\<close>. There is no test of \<open>self.pipeline\<close> in it: the
  steps are the same whatever the state. The handle is assigned twice, after the load and
  after the move to the device.
\<close>

definition initialize_pipeline :: "env \<Rightarrow> string option \<Rightarrow> vad_state \<Rightarrow> pydict \<times> vad_state" where
  "initialize_pipeline env hf_token s =
     (case effective_token hf_token s of
        None \<Rightarrow> (missing_token_result, s)
      | Some tok \<Rightarrow>
          if tok = [] then (missing_token_result, s)
          else
            (let access_status = check_model_access env (model_id s) tok;
                 s1 = s\<lparr>calls := calls s @ [CheckModelAccess (model_id s) tok]\<rparr>
             in case py_index access_status ''success'' of
                  Inl e \<Rightarrow> init_exception e s1
                | Inr ok \<Rightarrow>
                    if \<not> py_truthy ok then
                      (case py_index access_status ''message'' of
                         Inl e \<Rightarrow> init_exception e s1
                       | Inr msg \<Rightarrow>
                           (case py_index access_status ''details'' of
                              Inl e \<Rightarrow> init_exception e s1
                            | Inr details \<Rightarrow>
                                ([(''success'', PyBool False),
                                  (''message'', PyStr
                                     (''Echec de la verification d'acces au modele: '' @ py_str msg)),
                                  (''details'', details),
                                  (''access_status'', PyDict access_status)], s1)))
                    else
                      (let s2 = s1\<lparr>calls := calls s1 @ [FromPretrained (model_id s) tok]\<rparr>
                       in case from_pretrained env (model_id s) tok of
                            Inl e \<Rightarrow> init_exception e s2
                          | Inr None \<Rightarrow>
                              init_exception
                                (PyExn ''AttributeError'' none_has_no_to)
                                (s2\<lparr>pipeline := None\<rparr>)
                          | Inr (Some loaded) \<Rightarrow>
                              (let s3 = s2\<lparr>pipeline := Some loaded,
                                          calls := calls s2 @ [ToDevice loaded]\<rparr>
                               in case to_device env loaded (device_str s) of
                                    Inl e \<Rightarrow> init_exception e s3
                                  | Inr moved \<Rightarrow>
                                      ([(''success'', PyBool True),
                                        (''message'', PyStr ''Pipeline VAD initialisee avec succes.''),
                                        (''access_status'', PyDict access_status)],
                                       s3\<lparr>pipeline := Some moved,
                                          initialization_error := None\<rparr>)))))"

text \<open>\<open>VADProcessor.check_prerequisites\<close>, on its main path.\<close>

definition check_prerequisites :: "env \<Rightarrow> vad_state \<Rightarrow> pydict" where
  "check_prerequisites env s =
     [(''torch_version'', PyStr (torch_version env)),
      (''torchaudio_version'', PyStr (torchaudio_version env)),
      (''device'', PyStr (device_str s)),
      (''ffmpeg_available'', PyBool (ffmpeg_available env)),
      (''config_loaded'', PyBool (config s \<noteq> [])),
      (''token_available'', PyBool (case token s of None \<Rightarrow> False | Some t \<Rightarrow> t \<noteq> []))]"

text \<open>
  \<open>VADProcessor._extract_audio_from_video\<close>: the scratch file \<open>.tmp/<stem>.wav\<close> exists
  after a run of ffmpeg with return code 0; any other return code raises. The creation of
  the directory \<open>.tmp\<close> is taken to succeed.
\<close>

definition extract_audio_from_video :: "env \<Rightarrow> string \<Rightarrow> vad_state \<Rightarrow> (py_exn + string) \<times> vad_state" where
  "extract_audio_from_video env video_path s =
     (let audio_path = ''.tmp/'' @ path_stem video_path @ ''.wav'';
          s1 = s\<lparr>calls := calls s @ [Ffmpeg video_path audio_path]\<rparr>
      in case ffmpeg env video_path audio_path of
           Some stderr \<Rightarrow> (Inl (PyExn ''Exception'' (''ffmpeg error: '' @ stderr)), s1)
         | None \<Rightarrow> (Inr audio_path, s1\<lparr>files := insert audio_path (files s1)\<rparr>))"

text \<open>
  \<open>VADProcessor.save_results\<close> hands the record to the file system and swallows its own
  errors; only the call is recorded.
\<close>

definition save_results :: "pydict \<Rightarrow> string \<Rightarrow> vad_state \<Rightarrow> vad_state" where
  "save_results results source_file s = s\<lparr>calls := calls s @ [SaveResults source_file results]\<rparr>"

definition video_extensions :: "string list" where
  "video_extensions = [''.mp4'', ''.mkv'', ''.avi'', ''.mov'']"

text \<open>
  One entry of \<open>final_segments\<close>. The duration is rounded from the difference of the
  bounds of the segment, taken in double arithmetic before any rounding to three decimals.
  A start of value 0 is the integer 0 (see \<open>Segment\<close>), and \<open>round\<close> of an integer is that
  integer.
\<close>

definition speech_event :: "float_ops \<Rightarrow> Segment \<Rightarrow> pyval" where
  "speech_event fl segment =
     PyDict [(''type'', PyStr ''speech''),
             (''start'', if seg_start segment = 0 then PyInt 0
                         else PyNum (fl_round fl (seg_start segment) 3)),
             (''end'', PyNum (fl_round fl (seg_end segment) 3)),
             (''confidence'', PyNone),
             (''duration'',
                PyNum (fl_round fl (fl_sub fl (seg_end segment) (seg_start segment)) 3))]"

text \<open>
  The record built at the end of a run that raised nothing. \<open>rtf\<close> is a float, or the
  integer 0 when the audio has no duration.
\<close>

definition build_results ::
  "float_ops \<Rightarrow> vad_state \<Rightarrow> string \<Rightarrow> string \<Rightarrow> real \<Rightarrow> real \<Rightarrow> pyval \<Rightarrow> pyval list \<Rightarrow> pydict" where
  "build_results fl s file_path input_type audio_duration processing_time rtf final_segments =
     [(''success'', PyBool True),
      (''metadata'', PyDict
         [(''source'', PyStr file_path),
          (''input_type'', PyStr input_type),
          (''duration_s'', PyNum (fl_round fl audio_duration 3)),
          (''profile'', PyStr ''vad''),
          (''model'', PyStr (model_id s)),
          (''device'', PyStr (device_str s)),
          (''processing_time_s'', PyNum (fl_round fl processing_time 3)),
          (''rtf'', rtf),
          (''segments_count'', PyInt (int (length final_segments))),
          (''config'', PyDict (config s))]),
      (''events'', PyList final_segments)]"

text \<open>
  The extraction of the segments from the result of the inference: the timeline of an
  annotation, the timeline of the \<open>speech\<close> entry of a dictionary, or no segment at all
  (with a warning) for anything else.
\<close>

definition timeline_segments :: "vad_output \<Rightarrow> Segment list" where
  "timeline_segments vad_result =
     (case vad_result of
        Annotation timeline \<Rightarrow> timeline
      | SpeechDict timeline \<Rightarrow> timeline
      | OtherOutput \<Rightarrow> [])"

text \<open>
  The part of the \<open>try\<close> block of \<open>process_audio\<close> after the file type is known and the
  audio path is there: hash, decoding, inference, post-processing, conversion, removal of the
  scratch file, result record, persistence. An \<open>Inl\<close> leaves for the handler with the state
  reached so far. \<open>os.remove\<close> on an existing scratch file is taken to succeed.
\<close>

definition process_steps ::
  "float_ops \<Rightarrow> env \<Rightarrow> string \<Rightarrow> bool \<Rightarrow> string \<Rightarrow> vad_state \<Rightarrow> (py_exn + pydict) \<times> vad_state" where
  "process_steps fl env file_path is_video audio_path s =
     (let input_type = (if is_video then ''video'' else ''audio'');
          s1 = s\<lparr>calls := calls s @ [GetFileHash file_path]\<rparr>
      in case get_file_hash env file_path of
           Inl e \<Rightarrow> (Inl e, s1)
         | Inr file_hash \<Rightarrow>
             (let s2 = s1\<lparr>calls := calls s1 @ [SfRead audio_path]\<rparr>
              in case sf_read env audio_path of
                   Inl e \<Rightarrow> (Inl e, s2)
                 | Inr (frames, sample_rate) \<Rightarrow>
                     if sample_rate = 0
                     then (Inl (PyExn ''ZeroDivisionError'' ''division by zero''), s2)
                     else
                       (let audio_duration = fl_div fl (real frames) (real sample_rate)
                        in case pipeline s2 of
                             None \<Rightarrow>
                               (Inl (PyExn ''TypeError'' none_not_callable), s2)
                           | Some loaded \<Rightarrow>
                               (let s3 = s2\<lparr>calls := calls s2 @ [RunPipeline loaded audio_path]\<rparr>
                                in case run_pipeline env loaded audio_path of
                                     Inl e \<Rightarrow> (Inl e, s3)
                                   | Inr vad_result \<Rightarrow>
                                       (let segments = timeline_segments vad_result;
                                            processed_segments =
                                              post_process_segments fl (config s3) audio_duration segments;
                                            final_segments = map (speech_event fl) processed_segments;
                                            processing_time = fl_sub fl (time_end env) (time_start env);
                                            rtf = (if audio_duration > 0
                                                   then PyNum (fl_round fl
                                                          (fl_div fl processing_time audio_duration) 3)
                                                   else PyInt 0);
                                            s4 = (if is_video \<and> audio_path \<in> files s3
                                                  then s3\<lparr>files := files s3 - {audio_path},
                                                         calls := calls s3 @ [RemoveFile audio_path]\<rparr>
                                                  else s3);
                                            results = build_results fl s4 file_path input_type
                                                        audio_duration processing_time rtf final_segments
                                        in (Inr results, save_results results file_path s4))))))"

text \<open>
  The \<open>try\<close> block of \<open>process_audio\<close>. The test on the result of
  \<open>initialize_pipeline\<close> is the truth value of the returned dictionary itself.
\<close>

definition process_audio_body ::
  "float_ops \<Rightarrow> env \<Rightarrow> string \<Rightarrow> vad_state \<Rightarrow> (py_exn + pydict) \<times> vad_state" where
  "process_audio_body fl env file_path s =
     (let (init_result, s1) =
            (if pipeline s = None
             then (let (r, s') = initialize_pipeline env None s in (Some r, s'))
             else (None, s))
      in if (case init_result of Some r \<Rightarrow> \<not> py_truthy (PyDict r) | None \<Rightarrow> False)
         then (Inr [(''success'', PyBool False),
                    (''error'', PyStr (case initialization_error s1 of
                                         Some msg \<Rightarrow> if msg \<noteq> [] then msg
                                                     else ''Pipeline non initialisee''
                                       | None \<Rightarrow> ''Pipeline non initialisee'')),
                    (''health'', PyDict (check_prerequisites env s1))], s1)
         else
           (let file_ext = str_lower (path_suffix file_path);
                is_video = (file_ext \<in> set video_extensions)
            in if is_video
               then (case extract_audio_from_video env file_path s1 of
                       (Inl e, s2) \<Rightarrow> (Inl e, s2)
                     | (Inr audio_path, s2) \<Rightarrow> process_steps fl env file_path True audio_path s2)
               else process_steps fl env file_path False file_path s1))"

text \<open>\<open>VADProcessor.process_audio\<close>: the block and its handler.\<close>

definition process_audio :: "float_ops \<Rightarrow> env \<Rightarrow> string \<Rightarrow> vad_state \<Rightarrow> pydict \<times> vad_state" where
  "process_audio fl env file_path s =
     (case process_audio_body fl env file_path s of
        (Inr results, s') \<Rightarrow> (results, s')
      | (Inl e, s') \<Rightarrow>
          ([(''success'', PyBool False),
            (''error'', PyStr (exn_msg e)),
            (''error_type'', PyStr (exn_type e))], s'))"

section \<open>Concrete collaborators and states\<close>

definition example_env :: env where
  "example_env =
     \<lparr>hf_hub_download = (\<lambda>model tok. Inr ''config.yaml''),
      from_pretrained = (\<lambda>model tok. Inr (Some 1)),
      to_device = (\<lambda>loaded device. Inr loaded),
      ffmpeg = (\<lambda>video_path audio_path. None),
      get_file_hash = (\<lambda>path. Inr ''e3b0c442''),
      sf_read = (\<lambda>path. Inr (96000, 16000)),
      run_pipeline = (\<lambda>loaded path. Inr (Annotation [Segment (1 / 8) 1, Segment 4 (39 / 8)])),
      time_start = 0,
      time_end = 3,
      torch_version = ''2.0.0'',
      torchaudio_version = ''2.0.0'',
      ffmpeg_available = True\<rparr>"

definition no_token_state :: vad_state where
  "no_token_state =
     \<lparr>config = default_config,
      model_id = ''pyannote/voice-activity-detection'',
      token = None,
      pipeline = None,
      device_str = ''cpu'',
      initialization_error = None,
      files = {},
      calls = []\<rparr>"

definition loaded_state :: vad_state where
  "loaded_state = no_token_state\<lparr>token := Some ''hf_token'', pipeline := Some 1\<rparr>"

definition unreadable_audio_env :: env where
  "unreadable_audio_env =
     example_env\<lparr>sf_read := (\<lambda>path. Inl (PyExn ''LibsndfileError'' ''Error opening file''))\<rparr>"

definition explicit_token_state :: vad_state where
  "explicit_token_state = snd (initialize_pipeline example_env (Some ''hf_token'') no_token_state)"

text \<open>
  A collaborator whose pipeline returns one interval with bounds \<open>1/2048\<close> and
  \<open>4099/4096\<close>, and an orchestrator configured without margin.
\<close>

definition fine_interval_env :: env where
  "fine_interval_env =
     example_env\<lparr>run_pipeline :=
       (\<lambda>loaded path. Inr (Annotation [Segment (1 / 2048) (4099 / 4096)]))\<rparr>"

definition no_margin_state :: vad_state where
  "no_margin_state = loaded_state\<lparr>config := zero_margin_config\<rparr>"

section \<open>Properties of the segment post-processor\<close>

subsection \<open>The two loops\<close>

lemma expand_within_bounds: "within_bounds D (expand_segment fl m D s)"
  by (simp add: within_bounds_def expand_segment_def)

lemma filter_expand_present:
  assumes "cfg_num cfg ''min_duration_s'' = Inr mind" and "cfg_num cfg ''margin_s'' = Inr m"
  shows "filter_expand fl cfg D segs = Inr (map (expand_segment fl m D) (filter (keeps fl mind) segs))"
  using assms by (induction segs) (simp_all add: keeps_def)

lemma filter_expand_shape:
  "filter_expand fl cfg D segs = Inr ps \<Longrightarrow>
     ps = [] \<or> (\<exists>mind m. cfg_num cfg ''min_duration_s'' = Inr mind \<and> cfg_num cfg ''margin_s'' = Inr m)"
  by (induction segs arbitrary: ps) (auto split: sum.splits if_splits)

lemma merge_loop_merged:
  "merge_loop fl g (acc @ merged) cur rest = acc @ merge_loop fl g merged cur rest"
  by (induction rest arbitrary: merged cur) simp_all

lemma merge_loop_Cons:
  "merge_loop fl g merged cur (nxt # rest) =
     merged @ (if fl_sub fl (seg_start nxt) (seg_end cur) \<le> g
               then merge_loop fl g [] (Segment (seg_start cur) (seg_end nxt)) rest
               else cur # merge_loop fl g [] nxt rest)"
  using merge_loop_merged [of fl g merged "[]"] merge_loop_merged [of fl g "merged @ [cur]" "[]"]
  by simp

lemma post_process_present:
  assumes "cfg_num cfg ''min_duration_s'' = Inr mind" and "cfg_num cfg ''margin_s'' = Inr m"
    and "cfg_num cfg ''merge_gap_s'' = Inr g"
  shows "post_process_segments fl cfg D segs =
     (case map (expand_segment fl m D) (filter (keeps fl mind) segs) of
        [] \<Rightarrow> []
      | cur # rest \<Rightarrow> if 0 < g then merge_loop fl g [] cur rest else cur # rest)"
  using assms
  by (simp add: post_process_segments_def post_process_body_def filter_expand_present split: list.splits)

lemma post_process_shape:
  "post_process_segments fl cfg D segs = [] \<or>
     (\<exists>mind m g. cfg_num cfg ''min_duration_s'' = Inr mind \<and> cfg_num cfg ''margin_s'' = Inr m
        \<and> cfg_num cfg ''merge_gap_s'' = Inr g)"
  using filter_expand_shape [of fl cfg D segs]
  by (auto simp: post_process_segments_def post_process_body_def split: sum.splits list.splits)

lemma merge_loop_hd:
  "merge_loop fl g [] cur rest \<noteq> [] \<and> seg_start (hd (merge_loop fl g [] cur rest)) = seg_start cur"
proof (induction rest arbitrary: cur)
  case Nil
  show ?case by simp
next
  case (Cons nxt rest)
  show ?case
    using Cons.IH [of "Segment (seg_start cur) (seg_end nxt)"]
    by (simp add: merge_loop_Cons del: merge_loop.simps(2))
qed

lemma merge_loop_starts:
  "seg_start ` set (merge_loop fl g [] cur rest) \<subseteq> seg_start ` set (cur # rest)"
proof (induction rest arbitrary: cur)
  case Nil
  show ?case by simp
next
  case (Cons nxt rest)
  show ?case
    using Cons.IH [of "Segment (seg_start cur) (seg_end nxt)"] Cons.IH [of nxt]
    by (auto simp: merge_loop_Cons simp del: merge_loop.simps(2))
qed

lemma merge_loop_ends:
  "seg_end ` set (merge_loop fl g [] cur rest) \<subseteq> seg_end ` set (cur # rest)"
proof (induction rest arbitrary: cur)
  case Nil
  show ?case by simp
next
  case (Cons nxt rest)
  show ?case
    using Cons.IH [of "Segment (seg_start cur) (seg_end nxt)"] Cons.IH [of nxt]
    by (auto simp: merge_loop_Cons simp del: merge_loop.simps(2))
qed

text \<open>
  Two consecutive intervals of the output are exactly those on which the test of the loop
  failed: this needs nothing of the arithmetic.
\<close>

lemma merge_loop_successively:
  "successively (\<lambda>a b. \<not> fl_sub fl (seg_start b) (seg_end a) \<le> g) (merge_loop fl g [] cur rest)"
proof (induction rest arbitrary: cur)
  case Nil
  show ?case by simp
next
  case (Cons nxt rest)
  show ?case
  proof (cases "fl_sub fl (seg_start nxt) (seg_end cur) \<le> g")
    case True
    then show ?thesis
      using Cons.IH [of "Segment (seg_start cur) (seg_end nxt)"]
      by (simp add: merge_loop_Cons del: merge_loop.simps(2))
  next
    case False
    then show ?thesis
      using Cons.IH [of nxt] merge_loop_hd [of fl g nxt rest]
      by (simp add: merge_loop_Cons successively_Cons del: merge_loop.simps(2))
  qed
qed

lemma merge_loop_fixed:
  "successively (\<lambda>a b. \<not> fl_sub fl (seg_start b) (seg_end a) \<le> g) (cur # rest)
     \<Longrightarrow> merge_loop fl g [] cur rest = cur # rest"
proof (induction rest arbitrary: cur)
  case Nil
  show ?case by simp
next
  case (Cons nxt rest)
  have "\<not> fl_sub fl (seg_start nxt) (seg_end cur) \<le> g" using Cons.prems by simp
  moreover have "merge_loop fl g [] nxt rest = nxt # rest" using Cons.prems by (intro Cons.IH) simp
  ultimately show ?case by (simp add: merge_loop_Cons del: merge_loop.simps(2))
qed

text \<open>
  With sorted starts, a positive gap and a subtraction whose result is positive only when
  its first operand is the larger one, every interval of the output ends before each later
  one starts.
\<close>

lemma merge_loop_separated:
  assumes sign: "\<And>a b. 0 < fl_sub fl a b \<Longrightarrow> b < a" and "0 < g"
    and "sorted (map seg_start (cur # rest))"
  shows "sorted_wrt (\<lambda>a b. seg_end a < seg_start b \<and> seg_start a \<le> seg_start b)
           (merge_loop fl g [] cur rest)"
  using assms(3)
proof (induction rest arbitrary: cur)
  case Nil
  show ?case by simp
next
  case (Cons nxt rest)
  show ?case
  proof (cases "fl_sub fl (seg_start nxt) (seg_end cur) \<le> g")
    case True
    have "sorted (map seg_start (Segment (seg_start cur) (seg_end nxt) # rest))"
      using Cons.prems by simp
    from Cons.IH [OF this] True show ?thesis
      by (simp add: merge_loop_Cons del: merge_loop.simps(2))
  next
    case False
    then have "0 < fl_sub fl (seg_start nxt) (seg_end cur)" using \<open>0 < g\<close> by simp
    then have lt: "seg_end cur < seg_start nxt" by (rule sign)
    have srt: "sorted (map seg_start (nxt # rest))" using Cons.prems by simp
    have "\<forall>y\<in>set (merge_loop fl g [] nxt rest). seg_start nxt \<le> seg_start y"
      using merge_loop_starts [of fl g nxt rest] srt by auto
    moreover have "seg_start cur \<le> seg_start nxt" using Cons.prems by simp
    ultimately show ?thesis using False lt Cons.IH [OF srt]
      by (auto simp: merge_loop_Cons simp del: merge_loop.simps(2))
  qed
qed

lemma merge_loop_within_bounds:
  "\<forall>x\<in>set (cur # rest). within_bounds D x \<Longrightarrow>
     \<forall>y\<in>set (merge_loop fl g [] cur rest). within_bounds D y"
proof (induction rest arbitrary: cur)
  case Nil
  then show ?case by simp
next
  case (Cons nxt rest)
  have "\<forall>x\<in>set (Segment (seg_start cur) (seg_end nxt) # rest). within_bounds D x"
    using Cons.prems by (simp add: within_bounds_def)
  from Cons.IH [OF this] Cons.IH [of nxt] Cons.prems show ?case
    by (simp add: merge_loop_Cons del: merge_loop.simps(2))
qed

text \<open>
  With sorted starts and a subtraction that does not grow when its second operand does, a
  merged interval is at least as long as the last interval merged into it.
\<close>

lemma merge_loop_keeps:
  assumes anti: "\<And>a b c. a \<le> b \<Longrightarrow> fl_sub fl c b \<le> fl_sub fl c a"
    and "sorted (map seg_start (cur # rest))" and "\<forall>x\<in>set (cur # rest). keeps fl mind x"
  shows "\<forall>y\<in>set (merge_loop fl g [] cur rest). keeps fl mind y"
  using assms(2,3)
proof (induction rest arbitrary: cur)
  case Nil
  then show ?case by simp
next
  case (Cons nxt rest)
  have a: "sorted (map seg_start (Segment (seg_start cur) (seg_end nxt) # rest))"
    using Cons.prems(1) by simp
  have "seg_start cur \<le> seg_start nxt" using Cons.prems(1) by simp
  then have "fl_sub fl (seg_end nxt) (seg_start nxt) \<le> fl_sub fl (seg_end nxt) (seg_start cur)"
    by (rule anti)
  then have b: "\<forall>x\<in>set (Segment (seg_start cur) (seg_end nxt) # rest). keeps fl mind x"
    using Cons.prems(2) by (simp add: keeps_def)
  have c: "sorted (map seg_start (nxt # rest))" using Cons.prems(1) by simp
  have d: "\<forall>x\<in>set (nxt # rest). keeps fl mind x" using Cons.prems(2) by simp
  from Cons.IH [OF a b] Cons.IH [OF c d] Cons.prems(2) show ?case
    by (simp add: merge_loop_Cons del: merge_loop.simps(2))
qed

lemma sorted_filter_expand:
  assumes mono: "\<And>a b c. a \<le> b \<Longrightarrow> fl_sub fl a c \<le> fl_sub fl b c"
    and "sorted (map seg_start segs)"
  shows "sorted (map seg_start (map (expand_segment fl m D) (filter P segs)))"
proof -
  have "sorted_wrt (\<lambda>a b. seg_start a \<le> seg_start b) (filter P segs)"
    using assms(2) by (simp add: sorted_wrt_map sorted_wrt_filter)
  then have "sorted_wrt (\<lambda>a b. seg_start (expand_segment fl m D a)
                                \<le> seg_start (expand_segment fl m D b)) (filter P segs)"
  proof (rule sorted_wrt_mono_rel [rotated])
    fix a b
    assume "seg_start a \<le> seg_start b"
    then have "fl_sub fl (seg_start a) m \<le> fl_sub fl (seg_start b) m" by (rule mono)
    then show "seg_start (expand_segment fl m D a) \<le> seg_start (expand_segment fl m D b)"
      by (simp add: expand_segment_def)
  qed
  then show ?thesis by (simp add: sorted_wrt_map)
qed

lemma not_overlaps_separated: "seg_end a < seg_start b \<Longrightarrow> \<not> overlaps a b"
  by (simp add: overlaps_def)

lemma exact_arith_sel:
  "fl_add exact_arith = (+)" "fl_sub exact_arith = (-)" "fl_div exact_arith = (/)"
  "fl_round exact_arith = py_round"
  by (simp_all add: exact_arith_def)

subsection \<open>Concrete runs\<close>

lemmas post_eval = post_process_segments_def post_process_body_def cfg_num_def default_config_def
  expand_segment_def exact_arith_sel double_0_3_def double_0_2_def

lemma cfg_default:
  "cfg_num default_config ''min_duration_s'' = Inr double_0_3"
  "cfg_num default_config ''margin_s'' = Inr (1/4)"
  "cfg_num default_config ''merge_gap_s'' = Inr double_0_2"
  by (simp_all add: cfg_num_def default_config_def)

lemma cfg_zero_margin:
  "cfg_num zero_margin_config ''min_duration_s'' = Inr (1/4)"
  "cfg_num zero_margin_config ''margin_s'' = Inr 0"
  "cfg_num zero_margin_config ''merge_gap_s'' = Inr (1/4)"
  by (simp_all add: cfg_num_def zero_margin_config_def)

lemma cfg_zero_gap:
  "cfg_num zero_gap_config ''min_duration_s'' = Inr (1/4)"
  "cfg_num zero_gap_config ''margin_s'' = Inr (1/4)"
  "cfg_num zero_gap_config ''merge_gap_s'' = Inr 0"
  by (simp_all add: cfg_num_def zero_gap_config_def)

lemma cfg_quarter:
  "cfg_num quarter_config ''min_duration_s'' = Inr (1/4)"
  "cfg_num quarter_config ''margin_s'' = Inr (1/4)"
  "cfg_num quarter_config ''merge_gap_s'' = Inr (1/4)"
  by (simp_all add: cfg_num_def quarter_config_def)

lemma double_positive: "0 \<le> double_0_3" "0 < double_0_2"
  by (simp_all add: double_0_3_def double_0_2_def)

text \<open>
  The scenario of the specification, with the bounds moved to multiples of \<open>1/8\<close>: three raw
  intervals, the first two merged across their margins, the third left alone.
\<close>

lemma scenario:
  "post_process_segments exact_arith quarter_config 6
     [Segment 0 (1/2), Segment (5/8) 1, Segment 5 (11/2)]
   = [Segment 0 (5/4), Segment (19/4) (23/4)]"
  by (simp add: post_eval quarter_config_def)

lemma run_unsorted:
  "post_process_segments exact_arith default_config 10 [Segment 5 6, Segment 0 1, Segment 3 4]
   = [Segment (19/4) (5/4), Segment (11/4) (17/4)]"
  by (simp add: post_eval)

lemma run_zero_gap_adjacent:
  "post_process_segments exact_arith zero_gap_config 4 [Segment 0 1, Segment (3/2) (5/2)]
     = [Segment 0 (5/4), Segment (5/4) (11/4)]"
  by (simp add: post_eval zero_gap_config_def)

lemma run_zero_gap_overlap:
  "post_process_segments exact_arith zero_gap_config 4 [Segment 0 1, Segment (5/4) (9/4)]
     = [Segment 0 (5/4), Segment 1 (5/2)]"
  by (simp add: post_eval zero_gap_config_def)

lemma overlap_example: "\<not> pairwise_non_overlapping [Segment 0 (5/4), Segment 1 (5/2)]"
  by (simp add: pairwise_non_overlapping_def overlaps_def)

lemma unsorted_example: "\<not> sorted_by_start [Segment (19/4) (5/4), Segment (11/4) (17/4)]"
  by (simp add: sorted_by_start_def sorted_wrt2_simps del: sorted_wrt.simps)

lemma sorted_example: "sorted_by_start [Segment 0 (1/2), Segment (3/4) 1, Segment 5 (11/2)]"
  by (simp add: sorted_by_start_def sorted_wrt2_simps del: sorted_wrt.simps)

lemma run_once:
  "post_process_segments exact_arith default_config 10 [Segment 1 2] = [Segment (3/4) (9/4)]"
  by (simp add: post_eval)

lemma run_twice:
  "post_process_segments exact_arith default_config 10 [Segment (3/4) (9/4)] = [Segment (1/2) (5/2)]"
  by (simp add: post_eval)

lemma run_beyond_end:
  "post_process_segments exact_arith zero_margin_config (5/8) [Segment (1/2) 2]
     = [Segment (1/2) (5/8)]"
  by (simp add: post_eval zero_margin_config_def)

lemma run_beyond_end_twice:
  "post_process_segments exact_arith zero_margin_config (5/8) [Segment (1/2) (5/8)] = []"
  by (simp add: post_eval zero_margin_config_def)

lemma run_unsorted_zero_margin:
  "post_process_segments exact_arith zero_margin_config 10 [Segment 5 6, Segment 0 1, Segment 3 4]
     = [Segment 5 1, Segment 3 4]"
  by (simp add: post_eval zero_margin_config_def)

lemma run_unsorted_zero_margin_twice:
  "post_process_segments exact_arith zero_margin_config 10 [Segment 5 1, Segment 3 4] = [Segment 3 4]"
  by (simp add: post_eval zero_margin_config_def)

lemma run_zero_margin:
  "post_process_segments exact_arith zero_margin_config 10 [Segment 0 1, Segment (9/8) 2, Segment 5 6]
   = [Segment 0 2, Segment 5 6]"
  by (simp add: post_eval zero_margin_config_def)

lemma run_clamped:
  "post_process_segments exact_arith default_config 5 [Segment (1/8) 1, Segment 4 (39/8)]
   = [Segment 0 (5/4), Segment (15/4) 5]"
  by (simp add: post_eval)

lemma run_sorted:
  "post_process_segments exact_arith default_config 6 [Segment 0 (1/2), Segment (3/4) 1, Segment 5 (11/2)]
   = [Segment 0 (3/4), Segment (19/4) (23/4)]"
  by (simp add: post_eval)

subsection \<open>Order and overlap of the output\<close>

text \<open>
  Claim C3, as amended. When the raw intervals arrive sorted ascending by start and
  \<open>merge_gap_s\<close> is strictly positive, the output of the post-processor is sorted
  ascending by start and pairwise non-overlapping, for every audio duration and whatever the
  other configuration entries are. The code never sorts, and it skips the merge when
  \<open>merge_gap_s\<close> is not positive, so both conditions are needed. Of the subtraction the
  proof uses that it is monotone in its first operand and that its result is positive only
  when the first operand is the larger one, as the subtraction of doubles is.
\<close>

theorem postprocess_sorted_non_overlapping:
  assumes "sorted_by_start segments" and "cfg_num cfg ''merge_gap_s'' = Inr gap" and "0 < gap"
    and mono: "\<And>a b c. a \<le> b \<Longrightarrow> fl_sub fl a c \<le> fl_sub fl b c"
    and sign: "\<And>a b. 0 < fl_sub fl a b \<Longrightarrow> b < a"
  shows "sorted_by_start (post_process_segments fl cfg audio_duration segments) \<and>
         pairwise_non_overlapping (post_process_segments fl cfg audio_duration segments)"
proof -
  let ?out = "post_process_segments fl cfg audio_duration segments"
  have sep: "sorted_wrt (\<lambda>a b. seg_end a < seg_start b \<and> seg_start a \<le> seg_start b) ?out"
  proof (cases "?out = []")
    case True
    then show ?thesis by simp
  next
    case False
    then obtain mind m where keys: "cfg_num cfg ''min_duration_s'' = Inr mind"
        "cfg_num cfg ''margin_s'' = Inr m"
      using post_process_shape [of fl cfg audio_duration segments] by auto
    let ?p = "map (expand_segment fl m audio_duration) (filter (keeps fl mind) segments)"
    have srt: "sorted (map seg_start ?p)"
      using assms(1) unfolding sorted_by_start_def by (intro sorted_filter_expand mono)
    show ?thesis
    proof (cases ?p)
      case Nil
      then show ?thesis using post_process_present [OF keys assms(2), of fl audio_duration segments] by simp
    next
      case (Cons cur rest)
      then have "?out = merge_loop fl gap [] cur rest"
        using post_process_present [OF keys assms(2), of fl audio_duration segments] assms(3) by simp
      moreover have "sorted (map seg_start (cur # rest))" using srt Cons by simp
      ultimately show ?thesis using merge_loop_separated [OF sign assms(3)] by simp
    qed
  qed
  have "sorted_wrt (\<lambda>a b. seg_start a \<le> seg_start b) ?out"
    using sep by (rule sorted_wrt_mono_rel [rotated]) simp
  moreover have "sorted_wrt (\<lambda>a b. \<not> overlaps a b) ?out"
    using sep by (rule sorted_wrt_mono_rel [rotated]) (simp add: not_overlaps_separated)
  ultimately show ?thesis
    by (simp add: sorted_by_start_def pairwise_non_overlapping_def sorted_wrt_map)
qed

text \<open>The theorem on three sorted intervals, the first two of which are merged.\<close>

theorem postprocess_sorted_non_overlapping_witness:
  "post_process_segments exact_arith quarter_config 6
     [Segment 0 (1/2), Segment (5/8) 1, Segment 5 (11/2)]
     = [Segment 0 (5/4), Segment (19/4) (23/4)] \<and>
   sorted_by_start (post_process_segments exact_arith quarter_config 6
     [Segment 0 (1/2), Segment (5/8) 1, Segment 5 (11/2)]) \<and>
   pairwise_non_overlapping (post_process_segments exact_arith quarter_config 6
     [Segment 0 (1/2), Segment (5/8) 1, Segment 5 (11/2)])"
proof -
  have s: "sorted_by_start [Segment 0 (1/2), Segment (5/8) 1, Segment 5 (11/2)]"
    by (simp add: sorted_by_start_def sorted_wrt2_simps del: sorted_wrt.simps)
  have g: "(0::real) < 1/4" by simp
  show ?thesis
    using postprocess_sorted_non_overlapping [OF s cfg_quarter(3) g, of exact_arith 6] scenario
    by (simp add: exact_arith_sel)
qed

text \<open>
  Claim C3 as stated fails. With \<open>merge_gap_s = 0\<close> two sorted intervals whose margins
  overlap are returned overlapping; with the default configuration an unsorted input is
  returned unsorted.
\<close>

theorem postprocess_sorted_counterexample:
  "seg_start (Segment 0 1) < seg_end (Segment 0 1) \<and>
   seg_start (Segment (5/4) (9/4)) < seg_end (Segment (5/4) (9/4)) \<and>
   cfg_num zero_gap_config ''min_duration_s'' = Inr (1/4) \<and>
   cfg_num zero_gap_config ''margin_s'' = Inr (1/4) \<and>
   cfg_num zero_gap_config ''merge_gap_s'' = Inr 0 \<and>
   \<not> pairwise_non_overlapping
       (post_process_segments exact_arith zero_gap_config 4 [Segment 0 1, Segment (5/4) (9/4)]) \<and>
   seg_start (Segment 5 6) < seg_end (Segment 5 6) \<and>
   seg_start (Segment 3 4) < seg_end (Segment 3 4) \<and>
   cfg_num default_config ''min_duration_s'' = Inr double_0_3 \<and> 0 \<le> double_0_3 \<and>
   cfg_num default_config ''margin_s'' = Inr (1/4) \<and>
   cfg_num default_config ''merge_gap_s'' = Inr double_0_2 \<and> 0 < double_0_2 \<and>
   \<not> sorted_by_start
       (post_process_segments exact_arith default_config 10 [Segment 5 6, Segment 0 1, Segment 3 4])"
  by (simp add: run_unsorted run_zero_gap_overlap overlap_example unsorted_example cfg_zero_gap
      cfg_default double_positive)

subsection \<open>Running the post-processor on its own output\<close>

text \<open>
  Claim C4, as amended. When \<open>margin_s = 0\<close>, the raw intervals are sorted ascending by
  start and each lies within \<open>[0, audio_duration]\<close>, running the post-processor on its own
  output with the same configuration and audio duration returns that output. Of the
  arithmetic the proof uses that a difference does not grow when its second operand does,
  and that subtracting 0 from a raw start and adding 0 to a raw end change nothing, as it is
  with doubles.
\<close>

theorem postprocess_idempotent_zero_margin:
  assumes keys: "cfg_num cfg ''min_duration_s'' = Inr min_duration"
      "cfg_num cfg ''margin_s'' = Inr 0" "cfg_num cfg ''merge_gap_s'' = Inr gap"
    and srt: "sorted_by_start segments"
    and inb: "\<forall>s\<in>set segments. within_bounds audio_duration s"
    and anti: "\<And>a b c. a \<le> b \<Longrightarrow> fl_sub fl c b \<le> fl_sub fl c a"
    and sub0: "\<And>s. s \<in> set segments \<Longrightarrow> fl_sub fl (seg_start s) 0 = seg_start s"
    and add0: "\<And>s. s \<in> set segments \<Longrightarrow> fl_add fl (seg_end s) 0 = seg_end s"
  shows "post_process_segments fl cfg audio_duration
           (post_process_segments fl cfg audio_duration segments)
           = post_process_segments fl cfg audio_duration segments"
proof -
  let ?out = "post_process_segments fl cfg audio_duration segments"
  let ?p = "filter (keeps fl min_duration) segments"
  let ?P = "\<lambda>a b. \<not> fl_sub fl (seg_start b) (seg_end a) \<le> gap"
  have unchanged: "expand_segment fl 0 audio_duration y = y"
    if "within_bounds audio_duration y" "fl_sub fl (seg_start y) 0 = seg_start y"
      "fl_add fl (seg_end y) 0 = seg_end y" for y
    using that by (cases y) (simp add: expand_segment_def within_bounds_def)
  have p: "map (expand_segment fl 0 audio_duration) ?p = ?p"
    using inb sub0 add0 by (intro map_idI unchanged) simp_all
  have p_srt: "sorted (map seg_start ?p)"
    using srt unfolding sorted_by_start_def by (simp add: sorted_wrt_map sorted_wrt_filter)
  have out: "?out = (case ?p of [] \<Rightarrow> [] | cur # rest \<Rightarrow>
                       if 0 < gap then merge_loop fl gap [] cur rest else cur # rest)"
    using post_process_present [OF keys, of fl audio_duration segments] p by simp
  have good: "(\<forall>y\<in>set ?out. keeps fl min_duration y \<and> within_bounds audio_duration y) \<and>
              seg_start ` set ?out \<subseteq> seg_start ` set segments \<and>
              seg_end ` set ?out \<subseteq> seg_end ` set segments \<and>
              (0 < gap \<longrightarrow> successively ?P ?out)"
  proof (cases ?p)
    case Nil
    then show ?thesis using out by simp
  next
    case (Cons cur rest)
    have s1: "sorted (map seg_start (cur # rest))" using p_srt unfolding Cons .
    have k1: "\<forall>x\<in>set (cur # rest). keeps fl min_duration x"
      using Cons [symmetric] by simp
    have sub: "set (cur # rest) \<subseteq> set segments" using Cons [symmetric] by simp
    then have b1: "\<forall>x\<in>set (cur # rest). within_bounds audio_duration x"
      using inb by blast
    show ?thesis
    proof (cases "0 < gap")
      case True
      then have o: "?out = merge_loop fl gap [] cur rest" using out Cons by simp
      have "seg_start ` set ?out \<subseteq> seg_start ` set segments"
        unfolding o using merge_loop_starts [of fl gap cur rest] sub by blast
      moreover have "seg_end ` set ?out \<subseteq> seg_end ` set segments"
        unfolding o using merge_loop_ends [of fl gap cur rest] sub by blast
      ultimately show ?thesis
        using merge_loop_keeps [OF anti s1 k1, of gap] merge_loop_within_bounds [OF b1, of fl gap]
          merge_loop_successively [of fl gap cur rest] o
        by simp
    next
      case False
      then have o: "?out = cur # rest" using out Cons by simp
      have "seg_start ` set ?out \<subseteq> seg_start ` set segments"
          "seg_end ` set ?out \<subseteq> seg_end ` set segments"
        unfolding o using sub by blast+
      then show ?thesis using k1 b1 False o by simp
    qed
  qed
  have f: "filter (keeps fl min_duration) ?out = ?out"
    using good by (simp add: filter_id_conv)
  have m: "map (expand_segment fl 0 audio_duration) ?out = ?out"
  proof (intro map_idI unchanged)
    fix y assume y: "y \<in> set ?out"
    show "within_bounds audio_duration y" using good y by simp
    from good y obtain s where "s \<in> set segments" "seg_start y = seg_start s" by auto
    then show "fl_sub fl (seg_start y) 0 = seg_start y" using sub0 by simp
    from good y obtain s where "s \<in> set segments" "seg_end y = seg_end s" by auto
    then show "fl_add fl (seg_end y) 0 = seg_end y" using add0 by simp
  qed
  have again: "post_process_segments fl cfg audio_duration ?out =
      (case ?out of [] \<Rightarrow> [] | cur # rest \<Rightarrow>
         if 0 < gap then merge_loop fl gap [] cur rest else cur # rest)"
    using post_process_present [OF keys, of fl audio_duration ?out] by (simp only: f m)
  show ?thesis
  proof (cases ?out)
    case Nil
    then show ?thesis using again by simp
  next
    case (Cons c r)
    show ?thesis
    proof (cases "0 < gap")
      case True
      then have "merge_loop fl gap [] c r = c # r"
        using good Cons by (intro merge_loop_fixed) simp
      then show ?thesis using again Cons True by simp
    next
      case False
      then show ?thesis using again Cons by simp
    qed
  qed
qed

theorem postprocess_idempotent_zero_margin_witness:
  "sorted_by_start [Segment 0 1, Segment (9/8) 2, Segment 5 6] \<and>
   within_bounds 10 (Segment 0 1) \<and> within_bounds 10 (Segment (9/8) 2) \<and>
   within_bounds 10 (Segment 5 6) \<and>
   post_process_segments exact_arith zero_margin_config 10 [Segment 0 1, Segment (9/8) 2, Segment 5 6]
     = [Segment 0 2, Segment 5 6] \<and>
   post_process_segments exact_arith zero_margin_config 10 [Segment 0 2, Segment 5 6]
     = [Segment 0 2, Segment 5 6]"
proof -
  have s: "sorted_by_start [Segment 0 1, Segment (9/8) 2, Segment 5 6]"
    by (simp add: sorted_by_start_def sorted_wrt2_simps del: sorted_wrt.simps)
  have b: "\<forall>s\<in>set [Segment 0 1, Segment (9/8) 2, Segment 5 6]. within_bounds 10 s"
    by (simp add: within_bounds_def)
  show ?thesis
    using postprocess_idempotent_zero_margin [OF cfg_zero_margin s b, of exact_arith] s b
    by (simp add: run_zero_margin exact_arith_sel)
qed

text \<open>
  Claim C4 as stated fails: the margins are applied again on the second run. With the
  default configuration the interval \<open>[1, 2]\<close> becomes \<open>[0.75, 2.25]\<close> and then
  \<open>[0.5, 2.5]\<close>. Without margin, an interval reaching beyond the end of the audio is cut
  below the minimal duration and dropped by the second run, and an unsorted input is merged
  into an interval of negative length that the second run drops.
\<close>

theorem postprocess_idempotent_counterexample:
  "post_process_segments exact_arith default_config 10
       (post_process_segments exact_arith default_config 10 [Segment 1 2])
     \<noteq> post_process_segments exact_arith default_config 10 [Segment 1 2] \<and>
   post_process_segments exact_arith zero_margin_config (5/8)
       (post_process_segments exact_arith zero_margin_config (5/8) [Segment (1/2) 2])
     \<noteq> post_process_segments exact_arith zero_margin_config (5/8) [Segment (1/2) 2] \<and>
   post_process_segments exact_arith zero_margin_config 10
       (post_process_segments exact_arith zero_margin_config 10 [Segment 5 6, Segment 0 1, Segment 3 4])
     \<noteq> post_process_segments exact_arith zero_margin_config 10 [Segment 5 6, Segment 0 1, Segment 3 4]"
  by (simp add: run_once run_twice run_beyond_end run_beyond_end_twice run_unsorted_zero_margin
      run_unsorted_zero_margin_twice)

subsection \<open>The merge step\<close>

text \<open>
  Claim C5, as amended. When \<open>merge_gap_s = 0\<close> the merge step is skipped: the output is
  the list of the filtered, margin-expanded intervals, one per surviving raw interval, and
  intervals that touch or overlap after the margin expansion stay separate.
\<close>

theorem zero_gap_no_merge:
  assumes "cfg_num cfg ''min_duration_s'' = Inr min_duration"
    and "cfg_num cfg ''margin_s'' = Inr margin"
    and "cfg_num cfg ''merge_gap_s'' = Inr 0"
  shows "post_process_segments fl cfg audio_duration segments =
           map (expand_segment fl margin audio_duration) (filter (keeps fl min_duration) segments)"
  using post_process_present [OF assms, of fl audio_duration segments]
  by (simp split: list.splits)

theorem zero_gap_no_merge_witness:
  "post_process_segments exact_arith zero_gap_config 4
     [Segment 0 1, Segment (3/2) (5/2), Segment 3 (25/8)]
     = [Segment 0 (5/4), Segment (5/4) (11/4)]"
  using zero_gap_no_merge [OF cfg_zero_gap, of exact_arith 4
      "[Segment 0 1, Segment (3/2) (5/2), Segment 3 (25/8)]"]
  by (simp add: keeps_def expand_segment_def exact_arith_sel)

text \<open>
  Claim C5 as stated fails: with \<open>merge_gap_s = 0\<close> two intervals that are exactly
  adjacent after the margin expansion (gap 0) come out as two intervals, and so do two that
  overlap.
\<close>

theorem zero_gap_counterexample:
  "cfg_num zero_gap_config ''merge_gap_s'' = Inr 0 \<and>
   post_process_segments exact_arith zero_gap_config 4 [Segment 0 1, Segment (3/2) (5/2)]
     = [Segment 0 (5/4), Segment (5/4) (11/4)] \<and>
   seg_start (Segment (5/4) (11/4)) - seg_end (Segment 0 (5/4)) = 0 \<and>
   post_process_segments exact_arith zero_gap_config 4 [Segment 0 1, Segment (5/4) (9/4)]
     = [Segment 0 (5/4), Segment 1 (5/2)] \<and>
   seg_start (Segment 1 (5/2)) - seg_end (Segment 0 (5/4)) < 0"
  by (simp add: run_zero_gap_adjacent run_zero_gap_overlap cfg_zero_gap)

text \<open>
  Claim C7. With \<open>merge_gap_s > 0\<close>, at every iteration of the merge loop the accumulated
  interval and the next one are coalesced exactly when the gap
  \<open>next.start - current.end\<close>, as the program computes it in double arithmetic, is at most
  \<open>merge_gap_s\<close>: then the accumulated interval keeps its start and takes the end of the next
  interval and nothing is emitted; otherwise the accumulated interval is emitted as it is
  and the next one becomes the accumulated interval. On two raw intervals that pass the
  duration filter the whole post-processor returns one interval in the first case and the
  two expanded intervals in the second.
\<close>

theorem merge_boundary:
  assumes "cfg_num cfg ''min_duration_s'' = Inr min_duration"
    and "cfg_num cfg ''margin_s'' = Inr margin"
    and "cfg_num cfg ''merge_gap_s'' = Inr gap"
    and "0 < gap"
  shows "merge_loop fl gap merged current (next_seg # rest) =
           merged @ (if fl_sub fl (seg_start next_seg) (seg_end current) \<le> gap
                     then merge_loop fl gap [] (Segment (seg_start current) (seg_end next_seg)) rest
                     else current # merge_loop fl gap [] next_seg rest) \<and>
         (keeps fl min_duration a \<and> keeps fl min_duration b \<longrightarrow>
            post_process_segments fl cfg audio_duration [a, b] =
              (if fl_sub fl (seg_start (expand_segment fl margin audio_duration b))
                            (seg_end (expand_segment fl margin audio_duration a)) \<le> gap
               then [Segment (seg_start (expand_segment fl margin audio_duration a))
                             (seg_end (expand_segment fl margin audio_duration b))]
               else [expand_segment fl margin audio_duration a,
                     expand_segment fl margin audio_duration b]))"
proof -
  have "post_process_segments fl cfg audio_duration [a, b] =
          merge_loop fl gap [] (expand_segment fl margin audio_duration a)
            [expand_segment fl margin audio_duration b]"
    if "keeps fl min_duration a" "keeps fl min_duration b"
    using post_process_present [OF assms(1-3), of fl audio_duration "[a, b]"] that assms(4) by simp
  then show ?thesis using merge_loop_Cons [of fl gap merged current next_seg rest] by simp
qed

text \<open>
  With margin and gap \<open>0.25\<close>: the intervals \<open>[1, 2]\<close> and \<open>[2.75, 4]\<close> expand to
  \<open>[0.75, 2.25]\<close> and \<open>[2.5, 4.25]\<close>, whose gap is exactly \<open>0.25\<close>, and are merged;
  \<open>[1, 2]\<close> and \<open>[2.875, 4]\<close> leave a gap of \<open>0.375\<close> and are not. Every value is a
  double and every sum and difference is exact.
\<close>

theorem merge_boundary_witness:
  "merge_loop exact_arith (1/4) [] (Segment (3/4) (9/4)) [Segment (5/2) (17/4)]
     = [Segment (3/4) (17/4)] \<and>
   post_process_segments exact_arith quarter_config 10 [Segment 1 2, Segment (11/4) 4]
     = [Segment (3/4) (17/4)] \<and>
   post_process_segments exact_arith quarter_config 10 [Segment 1 2, Segment (23/8) 4]
     = [Segment (3/4) (9/4), Segment (21/8) (17/4)]"
proof -
  have g: "(0::real) < 1/4" by simp
  show ?thesis
    using merge_boundary [OF cfg_quarter g, of exact_arith "[]" "Segment (3/4) (9/4)"
        "Segment (5/2) (17/4)" "[]" "Segment 1 2" "Segment (11/4) 4" 10]
      merge_boundary [OF cfg_quarter g, of exact_arith "[]" "Segment (3/4) (9/4)"
        "Segment (5/2) (17/4)" "[]" "Segment 1 2" "Segment (23/8) 4" 10]
    by (simp add: keeps_def expand_segment_def exact_arith_sel del: merge_loop.simps(2))
qed

subsection \<open>The duration filter and the margins\<close>

text \<open>
  Claim C8. The first loop keeps exactly the intervals whose length \<open>end - start\<close>, as the
  program computes it in double arithmetic, is at least \<open>min_duration_s\<close>, in their order:
  an interval of length exactly \<open>min_duration_s\<close> is kept, a shorter one is dropped.
\<close>

theorem duration_filter:
  assumes "cfg_num cfg ''min_duration_s'' = Inr min_duration"
    and "cfg_num cfg ''margin_s'' = Inr margin"
  shows "filter_expand fl cfg audio_duration segments =
           Inr (map (expand_segment fl margin audio_duration)
                  (filter (\<lambda>s. min_duration \<le> fl_sub fl (seg_end s) (seg_start s)) segments)) \<and>
         (fl_sub fl (seg_end s) (seg_start s) = min_duration \<longrightarrow>
            filter_expand fl cfg audio_duration [s] = Inr [expand_segment fl margin audio_duration s]) \<and>
         (fl_sub fl (seg_end s) (seg_start s) < min_duration \<longrightarrow>
            filter_expand fl cfg audio_duration [s] = Inr [])"
proof -
  have "keeps fl min_duration = (\<lambda>s. min_duration \<le> fl_sub fl (seg_end s) (seg_start s))"
    by (auto simp: keeps_def fun_eq_iff)
  then show ?thesis
    using filter_expand_present [OF assms, of fl audio_duration segments]
      filter_expand_present [OF assms, of fl audio_duration "[s]"]
    by (simp add: keeps_def del: filter_expand.simps)
qed

text \<open>
  With a minimal duration of \<open>0.25\<close>: \<open>[1, 1.25]\<close> has length exactly \<open>0.25\<close> and is kept,
  \<open>[2, 2.125]\<close> is dropped. Every value is a double and every difference is exact.
\<close>

theorem duration_filter_witness:
  "filter_expand exact_arith quarter_config 10 [Segment 1 (5/4), Segment 2 (17/8), Segment 3 4]
     = Inr [Segment (3/4) (3/2), Segment (11/4) (17/4)] \<and>
   filter_expand exact_arith quarter_config 10 [Segment 1 (5/4)] = Inr [Segment (3/4) (3/2)] \<and>
   filter_expand exact_arith quarter_config 10 [Segment 2 (17/8)] = Inr []"
  using duration_filter [OF cfg_quarter(1,2), of exact_arith 10
      "[Segment 1 (5/4), Segment 2 (17/8), Segment 3 4]" "Segment 1 (5/4)"]
    duration_filter [OF cfg_quarter(1,2), of exact_arith 10 "[]" "Segment 2 (17/8)"]
  by (simp add: expand_segment_def exact_arith_sel del: filter_expand.simps)

text \<open>
  Claim C9. An interval that passes the duration filter is expanded to
  \<open>max(0, start - margin_s)\<close> and \<open>min(audio_duration, end + margin_s)\<close>, and no interval
  returned by the post-processor has a start below 0 or an end above \<open>audio_duration\<close>,
  whatever the arithmetic returns.
\<close>

theorem margin_clamp:
  "(cfg_num cfg ''min_duration_s'' = Inr min_duration \<and> cfg_num cfg ''margin_s'' = Inr margin \<and>
      keeps fl min_duration s \<longrightarrow>
      filter_expand fl cfg audio_duration [s] =
        Inr [Segment (max 0 (fl_sub fl (seg_start s) margin))
                     (min audio_duration (fl_add fl (seg_end s) margin))]) \<and>
   (\<forall>y\<in>set (post_process_segments fl cfg audio_duration segments).
      0 \<le> seg_start y \<and> seg_end y \<le> audio_duration)"
proof -
  let ?out = "post_process_segments fl cfg audio_duration segments"
  have "\<forall>y\<in>set ?out. within_bounds audio_duration y"
  proof (cases "?out = []")
    case True
    then show ?thesis by simp
  next
    case False
    then obtain mind m g where keys: "cfg_num cfg ''min_duration_s'' = Inr mind"
        "cfg_num cfg ''margin_s'' = Inr m" "cfg_num cfg ''merge_gap_s'' = Inr g"
      using post_process_shape [of fl cfg audio_duration segments] by auto
    let ?p = "map (expand_segment fl m audio_duration) (filter (keeps fl mind) segments)"
    have inb: "\<forall>x\<in>set ?p. within_bounds audio_duration x"
      by (simp add: expand_within_bounds)
    show ?thesis
    proof (cases ?p)
      case Nil
      then show ?thesis using post_process_present [OF keys, of fl audio_duration segments] by simp
    next
      case (Cons cur rest)
      have allb: "\<forall>x\<in>set (cur # rest). within_bounds audio_duration x"
        using inb unfolding Cons .
      show ?thesis
      proof (cases "0 < g")
        case True
        then have "?out = merge_loop fl g [] cur rest"
          using post_process_present [OF keys, of fl audio_duration segments] Cons by simp
        then show ?thesis using merge_loop_within_bounds [OF allb, of fl g] by simp
      next
        case False
        then have "?out = cur # rest"
          using post_process_present [OF keys, of fl audio_duration segments] Cons by simp
        then show ?thesis using allb by simp
      qed
    qed
  qed
  then have bounds: "\<forall>y\<in>set ?out. 0 \<le> seg_start y \<and> seg_end y \<le> audio_duration"
    by (simp add: within_bounds_def)
  have "filter_expand fl cfg audio_duration [s] =
          Inr [Segment (max 0 (fl_sub fl (seg_start s) margin))
                       (min audio_duration (fl_add fl (seg_end s) margin))]"
    if "cfg_num cfg ''min_duration_s'' = Inr min_duration" "cfg_num cfg ''margin_s'' = Inr margin"
      "keeps fl min_duration s"
    using filter_expand_present [OF that(1,2), of fl audio_duration "[s]"] that(3)
    by (simp add: expand_segment_def del: filter_expand.simps)
  with bounds show ?thesis by blast
qed

theorem margin_clamp_witness:
  "filter_expand exact_arith default_config 5 [Segment (1/8) 1] = Inr [Segment 0 (5/4)] \<and>
   post_process_segments exact_arith default_config 5 [Segment (1/8) 1, Segment 4 (39/8)]
     = [Segment 0 (5/4), Segment (15/4) 5] \<and>
   list_all (\<lambda>y. 0 \<le> seg_start y \<and> seg_end y \<le> 5)
     (post_process_segments exact_arith default_config 5 [Segment (1/8) 1, Segment 4 (39/8)])"
  using margin_clamp [of default_config double_0_3 "1/4" exact_arith "Segment (1/8) 1" 5
      "[Segment (1/8) 1, Segment 4 (39/8)]"]
  by (simp add: cfg_default keeps_def run_clamped list_all_iff exact_arith_sel double_0_3_def
        del: filter_expand.simps)

section \<open>Properties of the orchestrator\<close>

subsection \<open>Initialization and the steps of a run\<close>

lemma initialize_pipeline_nonempty: "fst (initialize_pipeline env hf_token s) \<noteq> []"
  by (simp add: initialize_pipeline_def init_exception_def missing_token_result_def Let_def
      split: option.splits sum.splits)

lemma initialize_pipeline_config: "config (snd (initialize_pipeline env hf_token s)) = config s"
  by (simp add: initialize_pipeline_def init_exception_def Let_def
      split: option.splits sum.splits)

lemma process_steps_success:
  assumes "process_steps fl env file_path is_video audio_path s = (Inr results, s')"
  shows "\<exists>frames sample_rate loaded vad_result input_type processing_time rtf s4.
           sf_read env audio_path = Inr (frames, sample_rate) \<and>
           run_pipeline env loaded audio_path = Inr vad_result \<and>
           results = build_results fl s4 file_path input_type
             (fl_div fl (real frames) (real sample_rate)) processing_time rtf
             (map (speech_event fl)
                (post_process_segments fl (config s) (fl_div fl (real frames) (real sample_rate))
                   (timeline_segments vad_result)))"
  using assms
  apply (auto simp: process_steps_def Let_def split: sum.splits option.splits if_splits prod.splits)
       apply blast+
  done

lemma process_steps_removes:
  assumes "process_steps fl env file_path True audio_path s = (Inr results, s')"
  shows "audio_path \<notin> files s'"
  using assms
  by (auto simp: process_steps_def Let_def save_results_def
      split: sum.splits option.splits if_splits prod.splits)

lemma extract_config:
  "extract_audio_from_video env file_path s = (r, s') \<Longrightarrow> config s' = config s"
  by (auto simp: extract_audio_from_video_def Let_def split: option.splits)

lemma process_steps_config:
  assumes "process_steps fl env file_path is_video audio_path s2 = (Inr results, s')"
    and "config s2 = config s"
  shows "\<exists>audio_path frames sample_rate loaded vad_result input_type processing_time rtf s4.
           sf_read env audio_path = Inr (frames, sample_rate) \<and>
           run_pipeline env loaded audio_path = Inr vad_result \<and>
           results = build_results fl s4 file_path input_type
             (fl_div fl (real frames) (real sample_rate)) processing_time rtf
             (map (speech_event fl)
                (post_process_segments fl (config s) (fl_div fl (real frames) (real sample_rate))
                   (timeline_segments vad_result)))"
proof -
  from process_steps_success [OF assms(1)]
  obtain frames sample_rate loaded vad_result input_type processing_time rtf s4 where
    "sf_read env audio_path = Inr (frames, sample_rate)"
    "run_pipeline env loaded audio_path = Inr vad_result"
    "results = build_results fl s4 file_path input_type
             (fl_div fl (real frames) (real sample_rate)) processing_time rtf
             (map (speech_event fl)
                (post_process_segments fl (config s) (fl_div fl (real frames) (real sample_rate))
                   (timeline_segments vad_result)))"
    unfolding assms(2) by blast
  then show ?thesis by blast
qed

lemma process_audio_body_success:
  assumes "process_audio_body fl env file_path s = (Inr results, s')"
  shows "\<exists>audio_path frames sample_rate loaded vad_result input_type processing_time rtf s4.
           sf_read env audio_path = Inr (frames, sample_rate) \<and>
           run_pipeline env loaded audio_path = Inr vad_result \<and>
           results = build_results fl s4 file_path input_type
             (fl_div fl (real frames) (real sample_rate)) processing_time rtf
             (map (speech_event fl)
                (post_process_segments fl (config s) (fl_div fl (real frames) (real sample_rate))
                   (timeline_segments vad_result)))"
proof -
  obtain r s1 where init: "initialize_pipeline env None s = (r, s1)"
    by (cases "initialize_pipeline env None s")
  have r: "r \<noteq> []" using initialize_pipeline_nonempty [of env None s] init by simp
  have c1: "config s1 = config s" using initialize_pipeline_config [of env None s] init by simp
  show ?thesis
  proof (cases "pipeline s = None")
    case True
    show ?thesis
    proof (cases "str_lower (path_suffix file_path) \<in> set video_extensions")
      case video: True
      obtain x s2 where ex: "extract_audio_from_video env file_path s1 = (x, s2)"
        by (cases "extract_audio_from_video env file_path s1")
      then obtain audio_path where "x = Inr audio_path"
          and steps: "process_steps fl env file_path True audio_path s2 = (Inr results, s')"
        using assms True init r video
        by (cases x) (simp_all add: process_audio_body_def)
      have "config s2 = config s" using extract_config [OF ex] c1 by simp
      from process_steps_config [OF steps this] show ?thesis .
    next
      case False
      then have steps: "process_steps fl env file_path False file_path s1 = (Inr results, s')"
        using assms True init r by (simp add: process_audio_body_def)
      from process_steps_config [OF steps c1] show ?thesis .
    qed
  next
    case loaded: False
    show ?thesis
    proof (cases "str_lower (path_suffix file_path) \<in> set video_extensions")
      case video: True
      obtain x s2 where ex: "extract_audio_from_video env file_path s = (x, s2)"
        by (cases "extract_audio_from_video env file_path s")
      then obtain audio_path where "x = Inr audio_path"
          and steps: "process_steps fl env file_path True audio_path s2 = (Inr results, s')"
        using assms loaded video
        by (cases x) (simp_all add: process_audio_body_def)
      from process_steps_config [OF steps extract_config [OF ex]] show ?thesis .
    next
      case False
      then have steps: "process_steps fl env file_path False file_path s = (Inr results, s')"
        using assms loaded by (simp add: process_audio_body_def)
      from process_steps_config [OF steps refl] show ?thesis .
    qed
  qed
qed

lemma build_results_success:
  "map_of (build_results fl s4 file_path input_type audio_duration processing_time rtf events) ''success''
     = Some (PyBool True)"
  "map_of (build_results fl s4 file_path input_type audio_duration processing_time rtf events) ''health''
     = None"
  "map_of (build_results fl s4 file_path input_type audio_duration processing_time rtf events) ''events''
     = Some (PyList events)"
  by (simp_all add: build_results_def)

lemma build_results_count:
  "\<exists>metadata.
     map_of (build_results fl s4 file_path input_type audio_duration processing_time rtf events) ''metadata''
       = Some (PyDict metadata) \<and>
     map_of metadata ''segments_count'' = Some (PyInt (int (length events)))"
  by (simp add: build_results_def)

lemma process_audio_raised:
  "process_audio_body fl env file_path s = (Inl e, s') \<Longrightarrow>
     process_audio fl env file_path s =
       ([(''success'', PyBool False), (''error'', PyStr (exn_msg e)),
         (''error_type'', PyStr (exn_type e))], s')"
  by (simp add: process_audio_def)

lemma process_audio_returned:
  "process_audio_body fl env file_path s = (Inr results, s') \<Longrightarrow>
     process_audio fl env file_path s = (results, s')"
  by (simp add: process_audio_def)

text \<open>
  No record returned by \<open>process_audio\<close> carries a \<open>health\<close> entry: the branch that
  builds it needs the dictionary returned by \<open>initialize_pipeline\<close> to be empty, and it
  never is.
\<close>

lemma process_audio_never_health: "map_of (fst (process_audio fl env file_path s)) ''health'' = None"
proof -
  obtain x s' where body: "process_audio_body fl env file_path s = (x, s')"
    by (cases "process_audio_body fl env file_path s")
  show ?thesis
  proof (cases x)
    case (Inl e)
    then show ?thesis using process_audio_raised [of fl env file_path s e s'] body by simp
  next
    case (Inr results)
    then have b: "process_audio_body fl env file_path s = (Inr results, s')" using body by simp
    from process_audio_body_success [OF b]
    obtain audio_duration final_segments input_type processing_time rtf s4 where
      "results = build_results fl s4 file_path input_type audio_duration processing_time rtf
          final_segments"
      by blast
    then show ?thesis using process_audio_returned [OF b] by (simp add: build_results_success)
  qed
qed

text \<open>
  Claim C10, as amended. In every record returned by \<open>process_audio\<close> with
  \<open>success = True\<close>, the events are, in order, those of the intervals that the
  post-processor returns for the decoded duration and the segments of the inference result.
  Each has \<open>start = round(segment.start, 3)\<close> (the integer 0 when the start of the interval
  is 0), \<open>end = round(segment.end, 3)\<close>, \<open>confidence = None\<close> and
  \<open>duration = round(segment.end - segment.start, 3)\<close>, the difference being taken on the
  bounds of the interval before they are rounded, not on the rounded \<open>start\<close> and \<open>end\<close>
  of the event; and \<open>metadata.segments_count\<close> is the length of the events list.
\<close>

theorem successful_result_events:
  assumes "process_audio fl env file_path s = (results, s')"
    and "map_of results ''success'' = Some (PyBool True)"
  shows "\<exists>audio_path frames sample_rate loaded vad_result events metadata.
           sf_read env audio_path = Inr (frames, sample_rate) \<and>
           run_pipeline env loaded audio_path = Inr vad_result \<and>
           map_of results ''events'' = Some (PyList events) \<and>
           events =
             map (\<lambda>segment.
                    PyDict [(''type'', PyStr ''speech''),
                            (''start'', if seg_start segment = 0 then PyInt 0
                                        else PyNum (fl_round fl (seg_start segment) 3)),
                            (''end'', PyNum (fl_round fl (seg_end segment) 3)),
                            (''confidence'', PyNone),
                            (''duration'',
                               PyNum (fl_round fl
                                 (fl_sub fl (seg_end segment) (seg_start segment)) 3))])
                 (post_process_segments fl (config s)
                    (fl_div fl (real frames) (real sample_rate)) (timeline_segments vad_result)) \<and>
           map_of results ''metadata'' = Some (PyDict metadata) \<and>
           map_of metadata ''segments_count'' = Some (PyInt (int (length events)))"
proof -
  obtain x s1 where body: "process_audio_body fl env file_path s = (x, s1)"
    by (cases "process_audio_body fl env file_path s")
  show ?thesis
  proof (cases x)
    case (Inl e)
    then show ?thesis using process_audio_raised [of fl env file_path s e s1] body assms by simp
  next
    case (Inr r)
    then have b: "process_audio_body fl env file_path s = (Inr r, s1)" using body by simp
    have rr: "r = results" using process_audio_returned [OF b] assms(1) by simp
    from process_audio_body_success [OF b]
    obtain audio_path frames sample_rate loaded vad_result input_type processing_time rtf s4 where
      rd: "sf_read env audio_path = Inr (frames, sample_rate)"
      and rp: "run_pipeline env loaded audio_path = Inr vad_result"
      and r: "results = build_results fl s4 file_path input_type
            (fl_div fl (real frames) (real sample_rate)) processing_time rtf
            (map (speech_event fl)
               (post_process_segments fl (config s) (fl_div fl (real frames) (real sample_rate))
                  (timeline_segments vad_result)))"
      unfolding rr by blast
    let ?events = "map (speech_event fl)
               (post_process_segments fl (config s) (fl_div fl (real frames) (real sample_rate))
                  (timeline_segments vad_result))"
    obtain metadata where m1: "map_of results ''metadata'' = Some (PyDict metadata)"
        and m2: "map_of metadata ''segments_count'' = Some (PyInt (int (length ?events)))"
      using build_results_count [of fl s4 file_path input_type
          "fl_div fl (real frames) (real sample_rate)" processing_time rtf ?events]
      unfolding r by blast
    have e1: "map_of results ''events'' = Some (PyList ?events)"
      unfolding r by (rule build_results_success(3))
    have e2: "?events =
             map (\<lambda>segment.
                    PyDict [(''type'', PyStr ''speech''),
                            (''start'', if seg_start segment = 0 then PyInt 0
                                        else PyNum (fl_round fl (seg_start segment) 3)),
                            (''end'', PyNum (fl_round fl (seg_end segment) 3)),
                            (''confidence'', PyNone),
                            (''duration'',
                               PyNum (fl_round fl
                                 (fl_sub fl (seg_end segment) (seg_start segment)) 3))])
                 (post_process_segments fl (config s)
                    (fl_div fl (real frames) (real sample_rate)) (timeline_segments vad_result))"
      by (simp add: speech_event_def)
    show ?thesis
      apply (rule exI [of _ audio_path])
      apply (rule exI [of _ frames])
      apply (rule exI [of _ sample_rate])
      apply (rule exI [of _ loaded])
      apply (rule exI [of _ vad_result])
      apply (rule exI [of _ ?events])
      apply (rule exI [of _ metadata])
      apply (intro conjI)
           apply (rule rd)
          apply (rule rp)
         apply (rule e1)
        apply (rule e2)
       apply (rule m1)
      apply (rule m2)
      done
  qed
qed

subsection \<open>Concrete runs of the orchestrator\<close>

lemma suffix_talk: "str_lower (path_suffix ''talk.wav'') = ''.wav''"
  by (simp add: str_lower_def path_suffix_def path_name_def char_lower_def)

lemma suffix_clip: "str_lower (path_suffix ''clip.mp4'') = ''.mp4''"
  by (simp add: str_lower_def path_suffix_def path_name_def char_lower_def)

lemma stem_clip: "path_stem ''clip.mp4'' = ''clip''"
  by (simp add: path_stem_def path_name_def)

lemma not_video_talk: "''.wav'' \<notin> set video_extensions"
  by (simp add: video_extensions_def)

lemma video_clip: "''.mp4'' \<in> set video_extensions"
  by (simp add: video_extensions_def)

lemma init_no_token: "initialize_pipeline example_env None no_token_state = (missing_token_result, no_token_state)"
  by (simp add: initialize_pipeline_def effective_token_def no_token_state_def)

lemma example_env_sel:
  "hf_hub_download example_env = (\<lambda>model tok. Inr ''config.yaml'')"
  "from_pretrained example_env = (\<lambda>model tok. Inr (Some 1))"
  "to_device example_env = (\<lambda>loaded device. Inr loaded)"
  "ffmpeg example_env = (\<lambda>video_path audio_path. None)"
  "get_file_hash example_env = (\<lambda>path. Inr ''e3b0c442'')"
  "sf_read example_env = (\<lambda>path. Inr (96000, 16000))"
  "run_pipeline example_env = (\<lambda>loaded path. Inr (Annotation [Segment (1 / 8) 1, Segment 4 (39 / 8)]))"
  "time_start example_env = 0"
  "time_end example_env = 3"
  by (simp_all add: example_env_def)

lemma unreadable_audio_env_sel:
  "ffmpeg unreadable_audio_env = (\<lambda>video_path audio_path. None)"
  "get_file_hash unreadable_audio_env = (\<lambda>path. Inr ''e3b0c442'')"
  "sf_read unreadable_audio_env = (\<lambda>path. Inl (PyExn ''LibsndfileError'' ''Error opening file''))"
  by (simp_all add: unreadable_audio_env_def example_env_def)

lemma no_token_state_sel:
  "pipeline no_token_state = None" "token no_token_state = None" "calls no_token_state = []"
  "files no_token_state = {}" "config no_token_state = default_config"
  "model_id no_token_state = ''pyannote/voice-activity-detection''"
  "device_str no_token_state = ''cpu''" "initialization_error no_token_state = None"
  by (simp_all add: no_token_state_def)

lemma loaded_state_sel:
  "pipeline loaded_state = Some 1" "token loaded_state = Some ''hf_token''" "calls loaded_state = []"
  "files loaded_state = {}" "config loaded_state = default_config"
  "model_id loaded_state = ''pyannote/voice-activity-detection''"
  "device_str loaded_state = ''cpu''" "initialization_error loaded_state = None"
  by (simp_all add: loaded_state_def no_token_state_def)

lemma steps_no_pipeline:
  "process_steps exact_arith example_env ''talk.wav'' False ''talk.wav'' no_token_state =
     (Inl (PyExn ''TypeError'' none_not_callable),
      no_token_state\<lparr>calls := [GetFileHash ''talk.wav'', SfRead ''talk.wav'']\<rparr>)"
  by (simp add: process_steps_def example_env_sel no_token_state_sel Let_def exact_arith_sel)

lemma body_no_pipeline:
  "process_audio_body exact_arith example_env ''talk.wav'' no_token_state =
     (Inl (PyExn ''TypeError'' none_not_callable),
      no_token_state\<lparr>calls := [GetFileHash ''talk.wav'', SfRead ''talk.wav'']\<rparr>)"
  by (simp add: process_audio_body_def init_no_token no_token_state_sel missing_token_result_def
      suffix_talk not_video_talk steps_no_pipeline)

text \<open>
  Claim C1 asks that \<open>process_audio\<close> on an uninitialized orchestrator, when the
  initialization attempt reports a failure, returns a failure record with a health snapshot
  and goes no further. The code tests the truth value of the dictionary returned by
  \<open>initialize_pipeline\<close>, which is never empty, instead of its \<open>success\<close> entry. Here, with
  no token anywhere, the initialization returns \<open>success = False\<close>, and the run goes on to
  the hash and the decoding and ends in the handler, on calling \<open>None\<close> as a pipeline: the
  record has no \<open>health\<close> entry.
\<close>

theorem uninitialized_failure_not_reported:
  "initialize_pipeline example_env None no_token_state = (missing_token_result, no_token_state) \<and>
   map_of missing_token_result ''success'' = Some (PyBool False) \<and>
   process_audio exact_arith example_env ''talk.wav'' no_token_state =
     ([(''success'', PyBool False),
       (''error'', PyStr none_not_callable),
       (''error_type'', PyStr ''TypeError'')],
      no_token_state\<lparr>calls := [GetFileHash ''talk.wav'', SfRead ''talk.wav'']\<rparr>)"
  using process_audio_raised [OF body_no_pipeline]
  by (simp add: init_no_token missing_token_result_def)

lemma extract_clip:
  "extract_audio_from_video unreadable_audio_env ''clip.mp4'' loaded_state =
     (Inr ''.tmp/clip.wav'',
      loaded_state\<lparr>calls := [Ffmpeg ''clip.mp4'' ''.tmp/clip.wav''], files := {''.tmp/clip.wav''}\<rparr>)"
  by (simp add: extract_audio_from_video_def unreadable_audio_env_sel loaded_state_sel stem_clip Let_def)

lemma steps_unreadable:
  "process_steps exact_arith unreadable_audio_env ''clip.mp4'' True ''.tmp/clip.wav''
     (loaded_state\<lparr>calls := [Ffmpeg ''clip.mp4'' ''.tmp/clip.wav''], files := {''.tmp/clip.wav''}\<rparr>) =
     (Inl (PyExn ''LibsndfileError'' ''Error opening file''),
      loaded_state\<lparr>calls := [Ffmpeg ''clip.mp4'' ''.tmp/clip.wav'', GetFileHash ''clip.mp4'',
                               SfRead ''.tmp/clip.wav''],
                     files := {''.tmp/clip.wav''}\<rparr>)"
  by (simp add: process_steps_def unreadable_audio_env_sel Let_def exact_arith_sel)

lemma body_unreadable:
  "process_audio_body exact_arith unreadable_audio_env ''clip.mp4'' loaded_state =
     (Inl (PyExn ''LibsndfileError'' ''Error opening file''),
      loaded_state\<lparr>calls := [Ffmpeg ''clip.mp4'' ''.tmp/clip.wav'', GetFileHash ''clip.mp4'',
                               SfRead ''.tmp/clip.wav''],
                     files := {''.tmp/clip.wav''}\<rparr>)"
  by (simp add: process_audio_body_def loaded_state_sel suffix_clip video_clip extract_clip
      steps_unreadable)

text \<open>
  Claim C6 asks that the scratch file extracted from a video is deleted on every path. The
  code deletes it in the \<open>try\<close> block only, after the conversion of the segments; the
  handler deletes nothing. Here ffmpeg succeeds on \<open>clip.mp4\<close>, the decoding of the scratch
  file raises, and \<open>.tmp/clip.wav\<close> is still there when \<open>process_audio\<close> returns its
  failure record.
\<close>

theorem scratch_file_left_after_error:
  "files loaded_state = {} \<and>
   fst (process_audio exact_arith unreadable_audio_env ''clip.mp4'' loaded_state) =
     [(''success'', PyBool False),
      (''error'', PyStr ''Error opening file''),
      (''error_type'', PyStr ''LibsndfileError'')] \<and>
   ''.tmp/clip.wav'' \<in> files (snd (process_audio exact_arith unreadable_audio_env ''clip.mp4'' loaded_state)) \<and>
   calls (snd (process_audio exact_arith unreadable_audio_env ''clip.mp4'' loaded_state)) =
     [Ffmpeg ''clip.mp4'' ''.tmp/clip.wav'', GetFileHash ''clip.mp4'', SfRead ''.tmp/clip.wav'']"
  using process_audio_raised [OF body_unreadable]
  by (simp add: loaded_state_sel)

text \<open>
  On the path that raises nothing the scratch file is gone: a record with
  \<open>success = True\<close> for a video input comes with a state that does not hold the file.
\<close>

lemma scratch_file_removed_on_success:
  assumes "process_audio fl env file_path s = (results, s')"
    and "map_of results ''success'' = Some (PyBool True)"
    and "str_lower (path_suffix file_path) \<in> set video_extensions"
  shows "''.tmp/'' @ path_stem file_path @ ''.wav'' \<notin> files s'"
proof -
  obtain x s1 where body: "process_audio_body fl env file_path s = (x, s1)"
    by (cases "process_audio_body fl env file_path s")
  show ?thesis
  proof (cases x)
    case (Inl e)
    then show ?thesis using process_audio_raised [of fl env file_path s e s1] body assms by simp
  next
    case (Inr r)
    then have b: "process_audio_body fl env file_path s = (Inr r, s1)" using body by simp
    have rr: "r = results" "s1 = s'" using process_audio_returned [OF b] assms(1) by simp_all
    obtain ir s0 where init: "initialize_pipeline env None s = (ir, s0)"
      by (cases "initialize_pipeline env None s")
    have ir: "ir \<noteq> []" using initialize_pipeline_nonempty [of env None s] init by simp
    define st where "st = (if pipeline s = None then s0 else s)"
    obtain y s2 where ex: "extract_audio_from_video env file_path st = (y, s2)"
      by (cases "extract_audio_from_video env file_path st")
    have "\<exists>audio_path. y = Inr audio_path \<and>
            process_steps fl env file_path True audio_path s2 = (Inr results, s')"
      using b assms(3) init ir ex rr
      by (cases y; cases "pipeline s = None") (simp_all add: process_audio_body_def st_def)
    then obtain audio_path where y: "y = Inr audio_path"
        and steps: "process_steps fl env file_path True audio_path s2 = (Inr results, s')"
      by blast
    have "audio_path = ''.tmp/'' @ path_stem file_path @ ''.wav''"
      using ex y by (auto simp: extract_audio_from_video_def Let_def split: option.splits)
    then show ?thesis using process_steps_removes [OF steps] by simp
  qed
qed

lemma steps_talk:
  "process_steps exact_arith example_env ''talk.wav'' False ''talk.wav'' loaded_state =
     (Inr (build_results exact_arith
             (loaded_state\<lparr>calls := [GetFileHash ''talk.wav'', SfRead ''talk.wav'',
                                      RunPipeline 1 ''talk.wav'']\<rparr>)
             ''talk.wav'' ''audio'' 6 3 (PyNum (1 / 2))
             [speech_event exact_arith (Segment 0 (5 / 4)),
              speech_event exact_arith (Segment (15 / 4) (41 / 8))]),
      save_results
        (build_results exact_arith
             (loaded_state\<lparr>calls := [GetFileHash ''talk.wav'', SfRead ''talk.wav'',
                                      RunPipeline 1 ''talk.wav'']\<rparr>)
             ''talk.wav'' ''audio'' 6 3 (PyNum (1 / 2))
             [speech_event exact_arith (Segment 0 (5 / 4)),
              speech_event exact_arith (Segment (15 / 4) (41 / 8))])
        ''talk.wav''
        (loaded_state\<lparr>calls := [GetFileHash ''talk.wav'', SfRead ''talk.wav'',
                                 RunPipeline 1 ''talk.wav'']\<rparr>))"
proof -
  have p: "post_process_segments exact_arith default_config 6 [Segment (1 / 8) 1, Segment 4 (39 / 8)]
             = [Segment 0 (5 / 4), Segment (15 / 4) (41 / 8)]"
    by (simp add: post_eval)
  have r: "py_round (1 / 2) 3 = 1 / 2"
    by (simp add: py_round_def Let_def)
  show ?thesis
    by (simp add: process_steps_def example_env_sel loaded_state_sel Let_def p r exact_arith_sel
        timeline_segments_def)
qed

subsection \<open>Calling \<open>initialize_pipeline\<close> again\<close>

lemma access_success:
  "py_index (check_model_access env model tok) ''success'' =
     Inr (PyBool (case hf_hub_download env model tok of Inr config_path \<Rightarrow> True | Inl e \<Rightarrow> False))"
  by (simp add: check_model_access_def py_index_def Let_def split: sum.splits)

lemma access_message:
  "\<exists>msg. py_index (check_model_access env model tok) ''message'' = Inr (PyStr msg)"
  by (simp add: check_model_access_def py_index_def Let_def split: sum.splits)

lemma access_details:
  "hf_hub_download env model tok = Inl e \<Longrightarrow>
     \<exists>details. py_index (check_model_access env model tok) ''details'' = Inr (PyStr details)"
  by (simp add: check_model_access_def py_index_def Let_def)

lemma init_missing:
  "effective_token hf_token s = None \<or> effective_token hf_token s = Some [] \<Longrightarrow>
     initialize_pipeline env hf_token s = (missing_token_result, s)"
  by (auto simp: initialize_pipeline_def)

lemma init_denied:
  assumes "effective_token hf_token s = Some tok" and "tok \<noteq> []"
    and "hf_hub_download env (model_id s) tok = Inl e"
  shows "map_of (fst (initialize_pipeline env hf_token s)) ''success'' = Some (PyBool False) \<and>
         snd (initialize_pipeline env hf_token s) =
           s\<lparr>calls := calls s @ [CheckModelAccess (model_id s) tok]\<rparr>"
proof -
  obtain msg details where
    "py_index (check_model_access env (model_id s) tok) ''message'' = Inr (PyStr msg)"
    "py_index (check_model_access env (model_id s) tok) ''details'' = Inr (PyStr details)"
    using access_message [of env "model_id s" tok] access_details [OF assms(3)] by blast
  then show ?thesis
    using assms by (simp add: initialize_pipeline_def access_success Let_def)
qed

lemma init_granted:
  assumes "effective_token hf_token s = Some tok" and "tok \<noteq> []"
    and "hf_hub_download env (model_id s) tok = Inr config_path"
  shows "initialize_pipeline env hf_token s =
     (case from_pretrained env (model_id s) tok of
        Inl e \<Rightarrow>
          init_exception e
            (s\<lparr>calls := calls s @ [CheckModelAccess (model_id s) tok, FromPretrained (model_id s) tok]\<rparr>)
      | Inr None \<Rightarrow>
          init_exception (PyExn ''AttributeError'' none_has_no_to)
            (s\<lparr>calls := calls s @ [CheckModelAccess (model_id s) tok, FromPretrained (model_id s) tok],
               pipeline := None\<rparr>)
      | Inr (Some loaded) \<Rightarrow>
          (case to_device env loaded (device_str s) of
             Inl e \<Rightarrow>
               init_exception e
                 (s\<lparr>pipeline := Some loaded,
                    calls := calls s @ [CheckModelAccess (model_id s) tok,
                                        FromPretrained (model_id s) tok, ToDevice loaded]\<rparr>)
           | Inr moved \<Rightarrow>
               ([(''success'', PyBool True),
                 (''message'', PyStr ''Pipeline VAD initialisee avec succes.''),
                 (''access_status'', PyDict (check_model_access env (model_id s) tok))],
                s\<lparr>pipeline := Some moved, initialization_error := None,
                   calls := calls s @ [CheckModelAccess (model_id s) tok,
                                       FromPretrained (model_id s) tok, ToDevice loaded]\<rparr>)))"
  using assms
  by (simp add: initialize_pipeline_def access_success Let_def split: sum.splits option.splits)

lemma init_exception_failure:
  "map_of (fst (init_exception e s)) ''success'' = Some (PyBool False)"
  "calls (snd (init_exception e s)) = calls s"
  by (simp_all add: init_exception_def)

lemma init_calls_granted:
  assumes "effective_token hf_token s = Some tok" and "tok \<noteq> []"
    and "hf_hub_download env (model_id s) tok = Inr config_path"
  shows "take (length (calls s) + 2) (calls (snd (initialize_pipeline env hf_token s))) =
           calls s @ [CheckModelAccess (model_id s) tok, FromPretrained (model_id s) tok]"
  by (simp add: init_granted [OF assms] init_exception_def split: sum.splits option.splits)

lemma init_success_iff:
  "map_of (fst (initialize_pipeline env hf_token s)) ''success'' = Some (PyBool True) \<longleftrightarrow>
     (\<exists>tok config_path loaded moved.
        effective_token hf_token s = Some tok \<and> tok \<noteq> [] \<and>
        hf_hub_download env (model_id s) tok = Inr config_path \<and>
        from_pretrained env (model_id s) tok = Inr (Some loaded) \<and>
        to_device env loaded (device_str s) = Inr moved)"
proof (cases "effective_token hf_token s = None \<or> effective_token hf_token s = Some []")
  case True
  then show ?thesis using init_missing [OF True, of env]
    by (auto simp: missing_token_result_def)
next
  case False
  then obtain tok where tok: "effective_token hf_token s = Some tok" "tok \<noteq> []" by auto
  show ?thesis
  proof (cases "hf_hub_download env (model_id s) tok")
    case (Inl e)
    then show ?thesis using init_denied [OF tok Inl] tok by simp
  next
    case (Inr config_path)
    show ?thesis
      using tok Inr
      by (simp add: init_granted [OF tok Inr] init_exception_def split: sum.splits option.splits)
  qed
qed

text \<open>
  Claim C2, as amended. \<open>initialize_pipeline\<close> called on an orchestrator whose pipeline is
  already loaded runs every step again. Without a token (neither the argument nor the stored
  one) it returns the missing-token failure and changes nothing. With a token it checks the
  access to the model again; when the access is refused it returns a failure and keeps the
  loaded pipeline; when it is granted it loads the engine again. It returns
  \<open>success = True\<close> exactly when there is a token, the access is granted, the load returns
  a pipeline and the move to the device succeeds.
\<close>

theorem initialize_pipeline_when_initialized:
  assumes "pipeline s = Some loaded"
  shows "(effective_token hf_token s = None \<or> effective_token hf_token s = Some [] \<longrightarrow>
            initialize_pipeline env hf_token s = (missing_token_result, s)) \<and>
         (effective_token hf_token s = Some tok \<and> tok \<noteq> [] \<and>
            hf_hub_download env (model_id s) tok = Inl e \<longrightarrow>
            map_of (fst (initialize_pipeline env hf_token s)) ''success'' = Some (PyBool False) \<and>
            pipeline (snd (initialize_pipeline env hf_token s)) = Some loaded \<and>
            calls (snd (initialize_pipeline env hf_token s)) =
              calls s @ [CheckModelAccess (model_id s) tok]) \<and>
         (effective_token hf_token s = Some tok \<and> tok \<noteq> [] \<and>
            hf_hub_download env (model_id s) tok = Inr config_path \<longrightarrow>
            take (length (calls s) + 2) (calls (snd (initialize_pipeline env hf_token s))) =
              calls s @ [CheckModelAccess (model_id s) tok, FromPretrained (model_id s) tok]) \<and>
         (map_of (fst (initialize_pipeline env hf_token s)) ''success'' = Some (PyBool True) \<longleftrightarrow>
            (\<exists>tok config_path reloaded moved.
               effective_token hf_token s = Some tok \<and> tok \<noteq> [] \<and>
               hf_hub_download env (model_id s) tok = Inr config_path \<and>
               from_pretrained env (model_id s) tok = Inr (Some reloaded) \<and>
               to_device env reloaded (device_str s) = Inr moved))"
proof (intro conjI impI)
  assume "effective_token hf_token s = None \<or> effective_token hf_token s = Some []"
  then show "initialize_pipeline env hf_token s = (missing_token_result, s)"
    by (rule init_missing)
next
  assume a: "effective_token hf_token s = Some tok \<and> tok \<noteq> [] \<and>
             hf_hub_download env (model_id s) tok = Inl e"
  then have d: "map_of (fst (initialize_pipeline env hf_token s)) ''success'' = Some (PyBool False) \<and>
         snd (initialize_pipeline env hf_token s) =
           s\<lparr>calls := calls s @ [CheckModelAccess (model_id s) tok]\<rparr>"
    by (intro init_denied) simp_all
  then show "map_of (fst (initialize_pipeline env hf_token s)) ''success'' = Some (PyBool False)"
    by simp
  from d show "pipeline (snd (initialize_pipeline env hf_token s)) = Some loaded"
    using assms by simp
  from d show "calls (snd (initialize_pipeline env hf_token s)) =
      calls s @ [CheckModelAccess (model_id s) tok]"
    by simp
next
  assume "effective_token hf_token s = Some tok \<and> tok \<noteq> [] \<and>
          hf_hub_download env (model_id s) tok = Inr config_path"
  then show "take (length (calls s) + 2) (calls (snd (initialize_pipeline env hf_token s))) =
      calls s @ [CheckModelAccess (model_id s) tok, FromPretrained (model_id s) tok]"
    by (intro init_calls_granted) simp_all
next
  show "map_of (fst (initialize_pipeline env hf_token s)) ''success'' = Some (PyBool True) \<longleftrightarrow>
            (\<exists>tok config_path reloaded moved.
               effective_token hf_token s = Some tok \<and> tok \<noteq> [] \<and>
               hf_hub_download env (model_id s) tok = Inr config_path \<and>
               from_pretrained env (model_id s) tok = Inr (Some reloaded) \<and>
               to_device env reloaded (device_str s) = Inr moved)"
    by (rule init_success_iff)
qed

lemma effective_token_loaded: "effective_token None loaded_state = Some ''hf_token''"
  by (simp add: effective_token_def loaded_state_sel)

lemma init_loaded:
  "initialize_pipeline example_env None loaded_state =
     ([(''success'', PyBool True),
       (''message'', PyStr ''Pipeline VAD initialisee avec succes.''),
       (''access_status'', PyDict
          (check_model_access example_env ''pyannote/voice-activity-detection'' ''hf_token''))],
      loaded_state\<lparr>pipeline := Some 1, initialization_error := None,
        calls := [CheckModelAccess ''pyannote/voice-activity-detection'' ''hf_token'',
                  FromPretrained ''pyannote/voice-activity-detection'' ''hf_token'',
                  ToDevice 1]\<rparr>)"
  using init_granted [of None loaded_state "''hf_token''" example_env "''config.yaml''"]
  by (simp add: effective_token_loaded example_env_sel loaded_state_sel)

text \<open>
  The theorem on a loaded orchestrator with a stored token: access is checked and the engine
  loaded again.
\<close>

theorem initialize_pipeline_when_initialized_witness:
  "pipeline loaded_state = Some 1 \<and>
   take 2 (calls (snd (initialize_pipeline example_env None loaded_state))) =
     [CheckModelAccess ''pyannote/voice-activity-detection'' ''hf_token'',
      FromPretrained ''pyannote/voice-activity-detection'' ''hf_token''] \<and>
   map_of (fst (initialize_pipeline example_env None loaded_state)) ''success'' = Some (PyBool True)"
  using initialize_pipeline_when_initialized
    [where s = loaded_state and loaded = 1 and hf_token = None and tok = "''hf_token''"
       and env = example_env and config_path = "''config.yaml''"]
  by (simp add: effective_token_loaded example_env_sel loaded_state_sel numeral_2_eq_2)

lemma init_explicit:
  "explicit_token_state =
     no_token_state\<lparr>pipeline := Some 1, initialization_error := None,
        calls := [CheckModelAccess ''pyannote/voice-activity-detection'' ''hf_token'',
                  FromPretrained ''pyannote/voice-activity-detection'' ''hf_token'',
                  ToDevice 1]\<rparr>"
  using init_granted [of "Some ''hf_token''" no_token_state "''hf_token''" example_env "''config.yaml''"]
  by (simp add: explicit_token_state_def effective_token_def example_env_sel no_token_state_sel)

text \<open>
  Claim C2 as stated fails. An orchestrator initialized with an explicit token and no stored
  one, called again without argument, returns a failure; and a loaded orchestrator with a
  stored token checks the access, loads and moves the engine again.
\<close>

theorem initialize_pipeline_counterexample:
  "pipeline explicit_token_state = Some 1 \<and>
   map_of (fst (initialize_pipeline example_env None explicit_token_state)) ''success''
     = Some (PyBool False) \<and>
   pipeline loaded_state = Some 1 \<and>
   calls loaded_state = [] \<and>
   calls (snd (initialize_pipeline example_env None loaded_state)) =
     [CheckModelAccess ''pyannote/voice-activity-detection'' ''hf_token'',
      FromPretrained ''pyannote/voice-activity-detection'' ''hf_token'',
      ToDevice 1]"
proof -
  have "effective_token None explicit_token_state = None"
    by (simp add: init_explicit effective_token_def no_token_state_sel)
  then have "initialize_pipeline example_env None explicit_token_state
               = (missing_token_result, explicit_token_state)"
    by (intro init_missing) simp
  then show ?thesis
    by (simp add: init_loaded loaded_state_sel missing_token_result_def init_explicit)
qed

subsection \<open>The events of a successful run\<close>

lemma path_examples:
  "path_suffix ''clip.mp4/'' = ''.mp4''" "path_stem ''clip.mp4/'' = ''clip''"
  "path_suffix ''media/./talk.wav'' = ''.wav''" "path_suffix ''.bashrc'' = []"
  "path_suffix ''archive.d/file'' = []" "path_suffix ''name.'' = []"
  "path_name ''/'' = []" "path_stem ''a.tar.gz'' = ''a.tar''"
  by (simp_all add: path_suffix_def path_stem_def path_name_def)

lemma body_talk:
  "process_audio_body exact_arith example_env ''talk.wav'' loaded_state =
     process_steps exact_arith example_env ''talk.wav'' False ''talk.wav'' loaded_state"
  by (simp add: process_audio_body_def loaded_state_sel suffix_talk not_video_talk)

text \<open>The two events of that run; the first start was clamped to the integer 0.\<close>

lemma speech_event_rounding:
  "speech_event exact_arith (Segment 0 (5 / 4)) =
     PyDict [(''type'', PyStr ''speech''), (''start'', PyInt 0), (''end'', PyNum (5 / 4)),
             (''confidence'', PyNone), (''duration'', PyNum (5 / 4))]"
  "speech_event exact_arith (Segment (15 / 4) (41 / 8)) =
     PyDict [(''type'', PyStr ''speech''), (''start'', PyNum (15 / 4)), (''end'', PyNum (41 / 8)),
             (''confidence'', PyNone), (''duration'', PyNum (11 / 8))]"
  by (simp_all add: speech_event_def py_round_def Let_def exact_arith_sel)

text \<open>The theorem on a run over an audio file of 6 seconds with two raw intervals.\<close>

theorem successful_result_events_witness:
  "map_of (fst (process_audio exact_arith example_env ''talk.wav'' loaded_state)) ''success''
     = Some (PyBool True) \<and>
   map_of (fst (process_audio exact_arith example_env ''talk.wav'' loaded_state)) ''events'' =
     Some (PyList [speech_event exact_arith (Segment 0 (5 / 4)),
                   speech_event exact_arith (Segment (15 / 4) (41 / 8))]) \<and>
   (\<exists>audio_path frames sample_rate loaded vad_result events metadata.
      sf_read example_env audio_path = Inr (frames, sample_rate) \<and>
      run_pipeline example_env loaded audio_path = Inr vad_result \<and>
      map_of (fst (process_audio exact_arith example_env ''talk.wav'' loaded_state)) ''events''
        = Some (PyList events) \<and>
      events =
        map (\<lambda>segment.
                    PyDict [(''type'', PyStr ''speech''),
                            (''start'', if seg_start segment = 0 then PyInt 0
                                        else PyNum (fl_round exact_arith (seg_start segment) 3)),
                            (''end'', PyNum (fl_round exact_arith (seg_end segment) 3)),
                            (''confidence'', PyNone),
                            (''duration'',
                               PyNum (fl_round exact_arith
                                 (fl_sub exact_arith (seg_end segment) (seg_start segment)) 3))])
                 (post_process_segments exact_arith (config loaded_state)
                    (fl_div exact_arith (real frames) (real sample_rate)) (timeline_segments vad_result)) \<and>
      map_of (fst (process_audio exact_arith example_env ''talk.wav'' loaded_state)) ''metadata''
        = Some (PyDict metadata) \<and>
      map_of metadata ''segments_count'' = Some (PyInt (int (length events))))"
proof -
  let ?run = "process_audio exact_arith example_env ''talk.wav'' loaded_state"
  have body: "process_audio_body exact_arith example_env ''talk.wav'' loaded_state
                = (Inr (fst ?run), snd ?run)"
    using process_audio_returned [of exact_arith example_env "''talk.wav''" loaded_state]
    by (simp add: body_talk steps_talk)
  have run: "?run = (fst ?run, snd ?run)" by simp
  have fst_run: "fst ?run = build_results exact_arith
             (loaded_state\<lparr>calls := [GetFileHash ''talk.wav'', SfRead ''talk.wav'',
                                      RunPipeline 1 ''talk.wav'']\<rparr>)
             ''talk.wav'' ''audio'' 6 3 (PyNum (1 / 2))
             [speech_event exact_arith (Segment 0 (5 / 4)),
              speech_event exact_arith (Segment (15 / 4) (41 / 8))]"
    using body by (simp add: body_talk steps_talk)
  have succ: "map_of (fst ?run) ''success'' = Some (PyBool True)"
    unfolding fst_run by (rule build_results_success(1))
  have ev: "map_of (fst ?run) ''events'' =
     Some (PyList [speech_event exact_arith (Segment 0 (5 / 4)),
                   speech_event exact_arith (Segment (15 / 4) (41 / 8))])"
    unfolding fst_run by (rule build_results_success(3))
  from successful_result_events [OF run succ] succ ev show ?thesis by blast
qed

lemma fine_interval_env_sel:
  "get_file_hash fine_interval_env = (\<lambda>path. Inr ''e3b0c442'')"
  "sf_read fine_interval_env = (\<lambda>path. Inr (96000, 16000))"
  "run_pipeline fine_interval_env
     = (\<lambda>loaded path. Inr (Annotation [Segment (1 / 2048) (4099 / 4096)]))"
  "time_start fine_interval_env = 0"
  "time_end fine_interval_env = 3"
  by (simp_all add: fine_interval_env_def example_env_def)

lemma no_margin_state_sel:
  "pipeline no_margin_state = Some 1" "calls no_margin_state = []"
  "files no_margin_state = {}" "config no_margin_state = zero_margin_config"
  by (simp_all add: no_margin_state_def loaded_state_def no_token_state_def)

lemma fine_interval_event:
  "speech_event exact_arith (Segment (1 / 2048) (4099 / 4096)) =
     PyDict [(''type'', PyStr ''speech''), (''start'', PyNum 0), (''end'', PyNum (1001 / 1000)),
             (''confidence'', PyNone), (''duration'', PyNum 1)]"
  by (simp add: speech_event_def py_round_def Let_def exact_arith_sel)

lemma steps_fine_interval:
  "fst (process_steps exact_arith fine_interval_env ''talk.wav'' False ''talk.wav'' no_margin_state) =
     Inr (build_results exact_arith
            (no_margin_state\<lparr>calls := [GetFileHash ''talk.wav'', SfRead ''talk.wav'',
                                        RunPipeline 1 ''talk.wav'']\<rparr>)
            ''talk.wav'' ''audio'' 6 3 (PyNum (1 / 2))
            [speech_event exact_arith (Segment (1 / 2048) (4099 / 4096))])"
proof -
  have p: "post_process_segments exact_arith zero_margin_config 6 [Segment (1 / 2048) (4099 / 4096)]
             = [Segment (1 / 2048) (4099 / 4096)]"
    by (simp add: post_eval zero_margin_config_def)
  have r: "py_round (1 / 2) 3 = 1 / 2"
    by (simp add: py_round_def Let_def)
  show ?thesis
    by (simp add: process_steps_def fine_interval_env_sel no_margin_state_sel Let_def p r
        exact_arith_sel timeline_segments_def)
qed

lemma body_fine_interval:
  "process_audio_body exact_arith fine_interval_env ''talk.wav'' no_margin_state =
     process_steps exact_arith fine_interval_env ''talk.wav'' False ''talk.wav'' no_margin_state"
  by (simp add: process_audio_body_def no_margin_state_sel suffix_talk not_video_talk)

lemma run_fine_interval:
  "fst (process_audio exact_arith fine_interval_env ''talk.wav'' no_margin_state) =
     build_results exact_arith
       (no_margin_state\<lparr>calls := [GetFileHash ''talk.wav'', SfRead ''talk.wav'',
                                   RunPipeline 1 ''talk.wav'']\<rparr>)
       ''talk.wav'' ''audio'' 6 3 (PyNum (1 / 2))
       [speech_event exact_arith (Segment (1 / 2048) (4099 / 4096))]"
proof -
  obtain x s' where b: "process_audio_body exact_arith fine_interval_env ''talk.wav'' no_margin_state
      = (x, s')"
    by (cases "process_audio_body exact_arith fine_interval_env ''talk.wav'' no_margin_state")
  then have "x = Inr (build_results exact_arith
       (no_margin_state\<lparr>calls := [GetFileHash ''talk.wav'', SfRead ''talk.wav'',
                                   RunPipeline 1 ''talk.wav'']\<rparr>)
       ''talk.wav'' ''audio'' 6 3 (PyNum (1 / 2))
       [speech_event exact_arith (Segment (1 / 2048) (4099 / 4096))])"
    using steps_fine_interval by (simp add: body_fine_interval)
  then show ?thesis using process_audio_returned [of exact_arith fine_interval_env "''talk.wav''"
      no_margin_state _ s'] b by simp
qed

text \<open>
  Claim C10 as stated fails: it takes \<open>duration = round(end - start, 3)\<close> on the \<open>start\<close>
  and \<open>end\<close> of the event, which are rounded. For an interval from \<open>1/2048\<close> to
  \<open>4099/4096\<close> (both doubles, their difference \<open>4097/4096\<close> exact) the event has
  \<open>start = 0.0\<close>, \<open>end = 1.001\<close> and \<open>duration = 1.0\<close>, while \<open>round(1.001 - 0.0, 3)\<close> is
  \<open>1.001\<close>. The decimal \<open>1.001\<close> stands for the double nearest to it.
\<close>

theorem successful_result_events_counterexample:
  "map_of (fst (process_audio exact_arith fine_interval_env ''talk.wav'' no_margin_state)) ''success''
     = Some (PyBool True) \<and>
   map_of (fst (process_audio exact_arith fine_interval_env ''talk.wav'' no_margin_state)) ''events''
     = Some (PyList
         [PyDict [(''type'', PyStr ''speech''), (''start'', PyNum 0), (''end'', PyNum (1001 / 1000)),
                  (''confidence'', PyNone), (''duration'', PyNum 1)]]) \<and>
   fl_round exact_arith (fl_sub exact_arith (1001 / 1000) 0) 3 = 1001 / 1000 \<and>
   (1001 / 1000 :: real) \<noteq> 1"
  by (simp add: run_fine_interval build_results_success fine_interval_event exact_arith_sel
      py_round_def Let_def)

end
